theory Spec2Isabelle
  imports Main "HOL-Library.Word"
begin

unbundle bit_operations_syntax

section \<open>The simple panel driver (drivers/gpu/drm/panel/panel-simple.c)\<close>

text \<open>
  The driver talks to the regulator, GPIO, backlight, DRM and MIPI-DSI layers of the
  kernel. Each function of the driver is embedded as a HOL function that returns, besides
  its C return value and the updated driver state, the list of calls it made into those
  layers, in program order. What those layers answer is an input of the function.

  A C \<^verbatim>\<open>int\<close> that the driver only compares with 0 and hands on (a return code, a GPIO
  number or value) is an \<open>int\<close>; the counters it adds to, the flag words and the
  \<^verbatim>\<open>unsigned int\<close> fields are 32-bit words.
\<close>

subsection \<open>Data\<close>

text \<open>\<^verbatim>\<open>struct drm_display_mode\<close>, the fields the descriptor tables of the driver set.\<close>

record drm_display_mode =
  clock :: int
  hdisplay :: int
  hsync_start :: int
  hsync_end :: int
  htotal :: int
  vdisplay :: int
  vsync_start :: int
  vsync_end :: int
  vtotal :: int
  vrefresh :: int

text \<open>
  \<^verbatim>\<open>struct panel_desc\<close>. The array \<^verbatim>\<open>modes\<close> with its length \<^verbatim>\<open>num_modes\<close> is a
  list; \<^verbatim>\<open>size.width\<close> and \<^verbatim>\<open>size.height\<close> are \<^verbatim>\<open>unsigned int\<close>.
\<close>

record panel_desc =
  modes :: "drm_display_mode list"
  size_width :: "32 word"
  size_height :: "32 word"

text \<open>
  The blanking levels of \<^verbatim>\<open>linux/fb.h\<close> that \<^verbatim>\<open>props.power\<close> can hold; the driver
  writes \<^verbatim>\<open>FB_BLANK_UNBLANK\<close> and \<^verbatim>\<open>FB_BLANK_POWERDOWN\<close>.
\<close>

datatype fb_blank =
  FB_BLANK_UNBLANK
| FB_BLANK_NORMAL
| FB_BLANK_VSYNC_SUSPEND
| FB_BLANK_HSYNC_SUSPEND
| FB_BLANK_POWERDOWN

record backlight_device =
  props_power :: fb_blank

text \<open>
  \<^verbatim>\<open>struct panel_simple\<close>. A pointer that may be \<^verbatim>\<open>NULL\<close> is an option; the regulator
  and the I2C adapter are opaque handles. \<^verbatim>\<open>enable_gpio_flags\<close> is an
  \<^verbatim>\<open>unsigned long\<close> of the 32-bit target, \<^verbatim>\<open>enable_gpio\<close> an \<^verbatim>\<open>int\<close>.
  The embedded \<^verbatim>\<open>struct drm_panel base\<close> carries the connector, which the functions
  that use it take as an argument. The field \<^verbatim>\<open>supply\<close> is \<open>supply_regulator\<close> here.
\<close>

record panel_simple =
  enabled :: bool
  desc :: "panel_desc option"
  backlight :: "backlight_device option"
  supply_regulator :: nat
  ddc :: "nat option"
  enable_gpio_flags :: "32 word"
  enable_gpio :: int

definition GPIO_ACTIVE_LOW :: "32 word" where
  "GPIO_ACTIVE_LOW = push_bit 0 1"

text \<open>An EDID blob, as \<^verbatim>\<open>drm_get_edid\<close> returns it: its bytes.\<close>

datatype edid = Edid "8 word list"

text \<open>
  The calls into the kernel, with the arguments that matter. A GPIO value and a
  transfer length are the C values passed; \<^verbatim>\<open>mipi_dsi_dcs_write\<close> records its second
  argument, the array it is given and the length it is given. A call that takes a
  resource records whether it got it: \<^verbatim>\<open>gpio_request\<close> and \<^verbatim>\<open>drm_panel_add\<close> their
  return value, the two \<^verbatim>\<open>of_find_..._by_node\<close> whether they found the device.
  Logging (\<^verbatim>\<open>dev_err\<close>, \<^verbatim>\<open>printk\<close>) is left out.
\<close>

datatype hw_call =
  RegulatorEnable
| RegulatorDisable
| GpioSetValue int int
| BacklightUpdateStatus fb_blank
| DevmKzalloc
| DevmRegulatorGet
| OfGetNamedGpioFlags
| GpioRequest int int
| GpioDirectionOutput int int
| GpioFree int
| OfParsePhandle string
| OfNodePut
| OfFindBacklightByNode bool
| PutDeviceBacklight
| OfFindI2cAdapterByNode bool
| PutDeviceDdc
| DrmPanelInit
| DrmPanelAdd int
| DevSetDrvdata
| OfMatchNode
| MipiDsiDcsWrite "8 word" "8 word list" nat
| Msleep nat
| MipiDsiAttach
| DrmGetEdid
| DrmModeConnectorUpdateEdidProperty "edid option"
| DrmAddEdidModes edid
| Kfree
| DrmModeDuplicate nat
| DrmModeSetName
| DrmModeProbedAdd drm_display_mode

text \<open>
  What the hardware layers answer during \<^verbatim>\<open>enable\<close> and \<^verbatim>\<open>disable\<close>: the return
  values of \<^verbatim>\<open>regulator_enable\<close>, \<^verbatim>\<open>regulator_disable\<close> and
  \<^verbatim>\<open>backlight_update_status\<close>. \<^verbatim>\<open>gpio_set_value\<close> returns nothing.
\<close>

record hw_results =
  regulator_enable_ret :: int
  regulator_disable_ret :: int
  backlight_update_status_ret :: int

subsection \<open>The power sequence\<close>

text \<open>
  \<^verbatim>\<open>gpio_is_valid\<close> is an inline function of \<^verbatim>\<open>linux/gpio.h\<close>; the driver's functions
  take it as the argument \<open>gpio_is_valid\<close>.

  \<^verbatim>\<open>panel_simple_disable\<close>: nothing when the panel is not enabled; otherwise the
  backlight, when there is one, to \<^verbatim>\<open>FB_BLANK_POWERDOWN\<close> and pushed with
  \<^verbatim>\<open>backlight_update_status\<close>; the GPIO, when valid, to 1 if active low and to 0
  otherwise; \<^verbatim>\<open>regulator_disable\<close> with its result dropped; \<^verbatim>\<open>enabled = false\<close>.
\<close>

definition panel_simple_disable ::
  "(int \<Rightarrow> bool) \<Rightarrow> hw_results \<Rightarrow> panel_simple \<Rightarrow> int \<times> panel_simple \<times> hw_call list" where
  "panel_simple_disable gpio_is_valid hw p =
     (if \<not> enabled p then (0, p, [])
      else
        let (p1, t1) =
              (case backlight p of
                 Some bl \<Rightarrow>
                   (p\<lparr>backlight := Some (bl\<lparr>props_power := FB_BLANK_POWERDOWN\<rparr>)\<rparr>,
                    [BacklightUpdateStatus FB_BLANK_POWERDOWN])
               | None \<Rightarrow> (p, []));
            t2 =
              (if gpio_is_valid (enable_gpio p1) then
                 (if enable_gpio_flags p1 AND GPIO_ACTIVE_LOW \<noteq> 0
                  then [GpioSetValue (enable_gpio p1) 1]
                  else [GpioSetValue (enable_gpio p1) 0])
               else []);
            t3 = [RegulatorDisable]
        in (0, p1\<lparr>enabled := False\<rparr>, t1 @ t2 @ t3))"

text \<open>
  \<^verbatim>\<open>panel_simple_enable\<close>: nothing when the panel is enabled already; otherwise
  \<^verbatim>\<open>regulator_enable\<close>, whose negative result is returned at once; then the GPIO, when
  valid, to 0 if active low and to 1 otherwise; the backlight, when there is one, to
  \<^verbatim>\<open>FB_BLANK_UNBLANK\<close>; \<^verbatim>\<open>enabled = true\<close>.
\<close>

definition panel_simple_enable ::
  "(int \<Rightarrow> bool) \<Rightarrow> hw_results \<Rightarrow> panel_simple \<Rightarrow> int \<times> panel_simple \<times> hw_call list" where
  "panel_simple_enable gpio_is_valid hw p =
     (if enabled p then (0, p, [])
      else
        let err = regulator_enable_ret hw in
        if err < 0 then (err, p, [RegulatorEnable])
        else
          let t1 = [RegulatorEnable];
              t2 =
                (if gpio_is_valid (enable_gpio p) then
                   (if enable_gpio_flags p AND GPIO_ACTIVE_LOW \<noteq> 0
                    then [GpioSetValue (enable_gpio p) 0]
                    else [GpioSetValue (enable_gpio p) 1])
                 else []);
              (p3, t3) =
                (case backlight p of
                   Some bl \<Rightarrow>
                     (p\<lparr>backlight := Some (bl\<lparr>props_power := FB_BLANK_UNBLANK\<rparr>)\<rparr>,
                      [BacklightUpdateStatus FB_BLANK_UNBLANK])
                 | None \<Rightarrow> (p, []))
          in (0, p3\<lparr>enabled := True\<rparr>, t1 @ t2 @ t3))"

text \<open>
  A call sequence on one panel: each request comes with what the hardware answers
  during it. \<open>run\<close> gives the panel after the whole sequence, \<open>run_calls\<close> the calls
  made, in order.
\<close>

datatype request = Enable hw_results | Disable hw_results

fun request_step ::
  "(int \<Rightarrow> bool) \<Rightarrow> request \<Rightarrow> panel_simple \<Rightarrow> int \<times> panel_simple \<times> hw_call list" where
  "request_step gpio_is_valid (Enable hw) p = panel_simple_enable gpio_is_valid hw p"
| "request_step gpio_is_valid (Disable hw) p = panel_simple_disable gpio_is_valid hw p"

fun run :: "(int \<Rightarrow> bool) \<Rightarrow> request list \<Rightarrow> panel_simple \<Rightarrow> panel_simple" where
  "run gpio_is_valid [] p = p"
| "run gpio_is_valid (r # rs) p =
     run gpio_is_valid rs (fst (snd (request_step gpio_is_valid r p)))"

fun run_calls :: "(int \<Rightarrow> bool) \<Rightarrow> request list \<Rightarrow> panel_simple \<Rightarrow> hw_call list" where
  "run_calls gpio_is_valid [] p = []"
| "run_calls gpio_is_valid (r # rs) p =
     snd (snd (request_step gpio_is_valid r p))
       @ run_calls gpio_is_valid rs (fst (snd (request_step gpio_is_valid r p)))"

subsection \<open>Mode list\<close>

text \<open>
  Modelled from the spec: the connector object of the display pipeline, which is not
  part of the driver's file. It carries a mode list, to which \<^verbatim>\<open>drm_mode_probed_add\<close>
  appends, and an EDID property, which \<^verbatim>\<open>drm_mode_connector_update_edid_property\<close> sets
  to its argument; \<^verbatim>\<open>display_info.width_mm\<close> and \<^verbatim>\<open>display_info.height_mm\<close> are the
  two fields the driver writes itself. The name \<^verbatim>\<open>drm_mode_set_name\<close> gives a
  duplicated mode is not modelled.
\<close>

record drm_connector =
  probed_modes :: "drm_display_mode list"
  width_mm :: "32 word"
  height_mm :: "32 word"
  edid_property :: "edid option"

text \<open>
  What the DRM core answers during \<^verbatim>\<open>get_modes\<close>: the blob \<^verbatim>\<open>drm_get_edid\<close> returns
  (\<^verbatim>\<open>NULL\<close> is \<open>None\<close>); what \<^verbatim>\<open>drm_add_edid_modes\<close> does to the connector and the
  count it returns; and whether the \<open>i\<close>-th \<^verbatim>\<open>drm_mode_duplicate\<close> of the loop returns a
  mode.
\<close>

record drm_results =
  drm_get_edid_ret :: "edid option"
  drm_add_edid_modes :: "drm_connector \<Rightarrow> edid \<Rightarrow> 32 word \<times> drm_connector"
  drm_mode_duplicate_ok :: "nat \<Rightarrow> bool"

text \<open>
  The loop of \<^verbatim>\<open>panel_simple_get_fixed_modes\<close> from index \<open>i\<close> on, over the modes
  that are left: a mode whose duplication fails is skipped; one that is duplicated is
  named, added to the probed list, and counted in the \<^verbatim>\<open>unsigned int num\<close>.
\<close>

fun fixed_modes_loop ::
  "(nat \<Rightarrow> bool) \<Rightarrow> nat \<Rightarrow> drm_display_mode list \<Rightarrow> 32 word \<Rightarrow> drm_connector
     \<Rightarrow> 32 word \<times> drm_connector \<times> hw_call list" where
  "fixed_modes_loop dup_ok i [] num c = (num, c, [])"
| "fixed_modes_loop dup_ok i (m # ms) num c =
     (if \<not> dup_ok i then
        (case fixed_modes_loop dup_ok (Suc i) ms num c of
           (n, c', t) \<Rightarrow> (n, c', DrmModeDuplicate i # t))
      else
        (case fixed_modes_loop dup_ok (Suc i) ms (num + 1)
                (c\<lparr>probed_modes := probed_modes c @ [m]\<rparr>) of
           (n, c', t) \<Rightarrow>
             (n, c', [DrmModeDuplicate i, DrmModeSetName, DrmModeProbedAdd m] @ t)))"

text \<open>
  \<^verbatim>\<open>panel_simple_get_fixed_modes\<close>: 0 at once when there is no descriptor; otherwise
  the loop, then the connector's physical size from the descriptor.
\<close>

definition panel_simple_get_fixed_modes ::
  "drm_results \<Rightarrow> panel_simple \<Rightarrow> drm_connector \<Rightarrow> 32 word \<times> drm_connector \<times> hw_call list" where
  "panel_simple_get_fixed_modes drm p connector =
     (case desc p of
        None \<Rightarrow> (0, connector, [])
      | Some d \<Rightarrow>
          (case fixed_modes_loop (drm_mode_duplicate_ok drm) 0 (modes d) 0 connector of
             (num, c, t) \<Rightarrow>
               (num, c\<lparr>width_mm := size_width d, height_mm := size_height d\<rparr>, t)))"

text \<open>
  \<^verbatim>\<open>panel_simple_get_modes\<close>. With a DDC bus: read the EDID, update the property with
  whatever was read, and only for a blob add its modes and free it. Then the fixed
  modes. \<^verbatim>\<open>num\<close> is an \<^verbatim>\<open>int\<close>; its additions are those of a 32-bit word.
\<close>

definition panel_simple_get_modes ::
  "drm_results \<Rightarrow> panel_simple \<Rightarrow> drm_connector \<Rightarrow> 32 word \<times> drm_connector \<times> hw_call list" where
  "panel_simple_get_modes drm p connector =
     (let (num1, c1, t1) =
            (case ddc p of
               None \<Rightarrow> (0, connector, [])
             | Some bus \<Rightarrow>
                 let edid = drm_get_edid_ret drm;
                     c0 = connector\<lparr>edid_property := edid\<rparr>;
                     t0 = [DrmGetEdid, DrmModeConnectorUpdateEdidProperty edid]
                 in (case edid of
                       None \<Rightarrow> (0, c0, t0)
                     | Some e \<Rightarrow>
                         (case drm_add_edid_modes drm c0 e of
                            (n, c') \<Rightarrow> (0 + n, c', t0 @ [DrmAddEdidModes e, Kfree]))));
          (num2, c2, t2) = panel_simple_get_fixed_modes drm p c1
      in (num1 + num2, c2, t1 @ t2))"

subsection \<open>Probing\<close>

text \<open>
  The error numbers of \<^verbatim>\<open>linux/errno.h\<close> and the flag of \<^verbatim>\<open>linux/of_gpio.h\<close> that the
  driver names. The headers are not part of the driver's file; the values are those of
  the kernel, and the properties below use the names only.
\<close>

definition ENOMEM :: int where "ENOMEM = 12"
definition ENODEV :: int where "ENODEV = 19"
definition EPROBE_DEFER :: int where "EPROBE_DEFER = 517"
definition OF_GPIO_ACTIVE_LOW :: "32 word" where "OF_GPIO_ACTIVE_LOW = 1"

text \<open>
  What the kernel answers during \<^verbatim>\<open>panel_simple_probe\<close>: whether \<^verbatim>\<open>devm_kzalloc\<close>
  returns memory; the regulator, or the error \<^verbatim>\<open>PTR_ERR\<close> reads from it; the GPIO number
  and flags of \<^verbatim>\<open>of_get_named_gpio_flags\<close>; the results of \<^verbatim>\<open>gpio_request\<close> and
  \<^verbatim>\<open>gpio_direction_output\<close>; whether the node has a \<^verbatim>\<open>backlight\<close> and a
  \<^verbatim>\<open>ddc-i2c-bus\<close> phandle, and the device found for each (\<^verbatim>\<open>NULL\<close> is \<open>None\<close>); the
  result of \<^verbatim>\<open>drm_panel_add\<close>.
\<close>

record probe_results =
  devm_kzalloc_ok :: bool
  devm_regulator_get_ret :: "int + nat"
  of_get_named_gpio_ret :: int
  of_gpio_flags :: "32 word"
  gpio_request_ret :: int
  gpio_direction_output_ret :: int
  backlight_phandle :: bool
  of_find_backlight_ret :: "backlight_device option"
  ddc_phandle :: bool
  of_find_i2c_adapter_ret :: "nat option"
  drm_panel_add_ret :: int

text \<open>The three exit labels of \<^verbatim>\<open>panel_simple_probe\<close>; each falls through to the next.\<close>

definition free_gpio :: "(int \<Rightarrow> bool) \<Rightarrow> panel_simple \<Rightarrow> hw_call list" where
  "free_gpio gpio_is_valid p =
     (if gpio_is_valid (enable_gpio p) then [GpioFree (enable_gpio p)] else [])"

definition free_backlight :: "(int \<Rightarrow> bool) \<Rightarrow> panel_simple \<Rightarrow> hw_call list" where
  "free_backlight gpio_is_valid p =
     (if backlight p \<noteq> None then [PutDeviceBacklight] else []) @ free_gpio gpio_is_valid p"

definition free_ddc :: "(int \<Rightarrow> bool) \<Rightarrow> panel_simple \<Rightarrow> hw_call list" where
  "free_ddc gpio_is_valid p =
     (if ddc p \<noteq> None then [PutDeviceDdc] else []) @ free_backlight gpio_is_valid p"

text \<open>
  \<^verbatim>\<open>panel_simple_probe\<close>, in parts, the last one first: registering the panel, the
  DDC bus, the backlight, the enable GPIO; each part ends by running the part that
  follows it in the source. Each returns the C return value, the panel when the probe
  succeeded (the one \<^verbatim>\<open>dev_set_drvdata\<close> stores), and the calls made. Taking and
  dropping the reference to a device-tree node (\<^verbatim>\<open>of_parse_phandle\<close>,
  \<^verbatim>\<open>of_node_put\<close>) are calls of the list too.
\<close>

definition probe_register ::
  "(int \<Rightarrow> bool) \<Rightarrow> probe_results \<Rightarrow> panel_simple \<Rightarrow> int \<times> panel_simple option \<times> hw_call list" where
  "probe_register gpio_is_valid k p =
     (let err = drm_panel_add_ret k in
      if err < 0 then
        (err, None, [DrmPanelInit, DrmPanelAdd err] @ free_ddc gpio_is_valid p)
      else (0, Some p, [DrmPanelInit, DrmPanelAdd err, DevSetDrvdata]))"

definition probe_ddc ::
  "(int \<Rightarrow> bool) \<Rightarrow> probe_results \<Rightarrow> panel_simple \<Rightarrow> int \<times> panel_simple option \<times> hw_call list" where
  "probe_ddc gpio_is_valid k p =
     (if ddc_phandle k then
        let p' = p\<lparr>ddc := of_find_i2c_adapter_ret k\<rparr>;
            t = [OfParsePhandle ''ddc-i2c-bus'',
                 OfFindI2cAdapterByNode (of_find_i2c_adapter_ret k \<noteq> None), OfNodePut]
        in if ddc p' = None then
             (- EPROBE_DEFER, None, t @ free_backlight gpio_is_valid p')
           else
             (case probe_register gpio_is_valid k p' of (r, q, t') \<Rightarrow> (r, q, t @ t'))
      else
        (case probe_register gpio_is_valid k p of
           (r, q, t') \<Rightarrow> (r, q, [OfParsePhandle ''ddc-i2c-bus''] @ t')))"

definition probe_backlight ::
  "(int \<Rightarrow> bool) \<Rightarrow> probe_results \<Rightarrow> panel_simple \<Rightarrow> int \<times> panel_simple option \<times> hw_call list" where
  "probe_backlight gpio_is_valid k p =
     (if backlight_phandle k then
        let p' = p\<lparr>backlight := of_find_backlight_ret k\<rparr>;
            t = [OfParsePhandle ''backlight'',
                 OfFindBacklightByNode (of_find_backlight_ret k \<noteq> None), OfNodePut]
        in if backlight p' = None then
             (- EPROBE_DEFER, None, t @ free_gpio gpio_is_valid p')
           else
             (case probe_ddc gpio_is_valid k p' of (r, q, t') \<Rightarrow> (r, q, t @ t'))
      else
        (case probe_ddc gpio_is_valid k p of
           (r, q, t') \<Rightarrow> (r, q, [OfParsePhandle ''backlight''] @ t')))"

definition probe_gpio ::
  "(int \<Rightarrow> bool) \<Rightarrow> probe_results \<Rightarrow> panel_simple \<Rightarrow> int \<times> panel_simple option \<times> hw_call list" where
  "probe_gpio gpio_is_valid k p0 =
     (let p = p0\<lparr>enable_gpio := of_get_named_gpio_ret k\<rparr> in
      if gpio_is_valid (enable_gpio p) then
        let p' = (if of_gpio_flags k AND OF_GPIO_ACTIVE_LOW \<noteq> 0
                  then p\<lparr>enable_gpio_flags := enable_gpio_flags p OR GPIO_ACTIVE_LOW\<rparr>
                  else p);
            err = gpio_request_ret k
        in if err < 0 then
             (err, None, [OfGetNamedGpioFlags, GpioRequest (enable_gpio p') err])
           else
             let v = (if enable_gpio_flags p' AND GPIO_ACTIVE_LOW \<noteq> 0 then 1 else 0);
                 err' = gpio_direction_output_ret k;
                 t = [OfGetNamedGpioFlags, GpioRequest (enable_gpio p') err,
                      GpioDirectionOutput (enable_gpio p') v]
             in if err' < 0 then (err', None, t @ free_gpio gpio_is_valid p')
                else
                  (case probe_backlight gpio_is_valid k p' of (r, q, t') \<Rightarrow> (r, q, t @ t'))
      else
        (case probe_backlight gpio_is_valid k p of
           (r, q, t') \<Rightarrow> (r, q, [OfGetNamedGpioFlags] @ t')))"

text \<open>
  The start of \<^verbatim>\<open>panel_simple_probe\<close>: the zeroed allocation, \<^verbatim>\<open>enabled\<close> and
  \<^verbatim>\<open>desc\<close>, and the regulator. The allocation and the regulator are device-managed
  (\<^verbatim>\<open>devm_\<close>): the driver core gives them back when the probe fails, and the driver
  has no call for that.
\<close>

definition panel_simple_probe ::
  "(int \<Rightarrow> bool) \<Rightarrow> probe_results \<Rightarrow> panel_desc option
     \<Rightarrow> int \<times> panel_simple option \<times> hw_call list" where
  "panel_simple_probe gpio_is_valid k d =
     (if \<not> devm_kzalloc_ok k then (- ENOMEM, None, [DevmKzalloc])
      else
        (case devm_regulator_get_ret k of
           Inl e \<Rightarrow> (e, None, [DevmKzalloc, DevmRegulatorGet])
         | Inr reg \<Rightarrow>
             let p = \<lparr>enabled = False, desc = d, backlight = None, supply_regulator = reg,
                      ddc = None, enable_gpio_flags = 0, enable_gpio = 0\<rparr>
             in (case probe_gpio gpio_is_valid k p of
                   (r, q, t) \<Rightarrow> (r, q, [DevmKzalloc, DevmRegulatorGet] @ t))))"

subsection \<open>The DSI panels\<close>

text \<open>
  The flags and the pixel format of \<^verbatim>\<open>drm/drm_mipi_dsi.h\<close> that the descriptors use;
  \<^verbatim>\<open>flags\<close> is the list of the flags or-ed together.
\<close>

datatype mipi_dsi_mode_flag =
  MIPI_DSI_MODE_VIDEO
| MIPI_DSI_MODE_VIDEO_HSE
| MIPI_DSI_MODE_VIDEO_SYNC_PULSE
| MIPI_DSI_CLOCK_NON_CONTINUOUS

datatype mipi_dsi_pixel_format = MIPI_DSI_FMT_RGB888

record panel_desc_dsi =
  dsi_desc :: panel_desc
  flags :: "mipi_dsi_mode_flag list"
  format :: mipi_dsi_pixel_format
  lanes :: "32 word"

definition sc20_ili9881c_mode :: drm_display_mode where
  "sc20_ili9881c_mode =
     \<lparr>clock = 714778,
      hdisplay = 720, hsync_start = 720 + 52, hsync_end = 720 + 52 + 36,
      htotal = 720 + 52 + 36 + 100,
      vdisplay = 1280, vsync_start = 1280 + 8, vsync_end = 1280 + 8 + 4,
      vtotal = 1280 + 8 + 4 + 20,
      vrefresh = 60\<rparr>"

definition sc20_ili9881c :: panel_desc_dsi where
  "sc20_ili9881c =
     \<lparr>dsi_desc = \<lparr>modes = [sc20_ili9881c_mode], size_width = 59, size_height = 104\<rparr>,
      flags = [MIPI_DSI_MODE_VIDEO, MIPI_DSI_MODE_VIDEO_HSE, MIPI_DSI_CLOCK_NON_CONTINUOUS],
      format = MIPI_DSI_FMT_RGB888,
      lanes = 4\<rparr>"

definition lg_lh500wx1_sd03_mode :: drm_display_mode where
  "lg_lh500wx1_sd03_mode =
     \<lparr>clock = 67000,
      hdisplay = 720, hsync_start = 720 + 12, hsync_end = 720 + 12 + 4,
      htotal = 720 + 12 + 4 + 112,
      vdisplay = 1280, vsync_start = 1280 + 8, vsync_end = 1280 + 8 + 4,
      vtotal = 1280 + 8 + 4 + 12,
      vrefresh = 60\<rparr>"

definition lg_lh500wx1_sd03 :: panel_desc_dsi where
  "lg_lh500wx1_sd03 =
     \<lparr>dsi_desc = \<lparr>modes = [lg_lh500wx1_sd03_mode], size_width = 62, size_height = 110\<rparr>,
      flags = [MIPI_DSI_MODE_VIDEO],
      format = MIPI_DSI_FMT_RGB888,
      lanes = 4\<rparr>"

definition panasonic_vvx10f004b00_mode :: drm_display_mode where
  "panasonic_vvx10f004b00_mode =
     \<lparr>clock = 157200,
      hdisplay = 1920, hsync_start = 1920 + 154, hsync_end = 1920 + 154 + 16,
      htotal = 1920 + 154 + 16 + 32,
      vdisplay = 1200, vsync_start = 1200 + 17, vsync_end = 1200 + 17 + 2,
      vtotal = 1200 + 17 + 2 + 16,
      vrefresh = 60\<rparr>"

definition panasonic_vvx10f004b00 :: panel_desc_dsi where
  "panasonic_vvx10f004b00 =
     \<lparr>dsi_desc = \<lparr>modes = [panasonic_vvx10f004b00_mode], size_width = 217, size_height = 136\<rparr>,
      flags = [MIPI_DSI_MODE_VIDEO, MIPI_DSI_MODE_VIDEO_SYNC_PULSE],
      format = MIPI_DSI_FMT_RGB888,
      lanes = 4\<rparr>"

text \<open>
  The table \<^verbatim>\<open>dsi_of_match\<close> of the driver.

  Modelled from the spec: \<^verbatim>\<open>of_match_node\<close>, a function of the device-tree core that is
  not part of the driver's file, as the lookup of a compatibility identifier in the
  table: the data of the first entry with that string, \<open>None\<close> when there is none.
\<close>

definition dsi_of_match :: "(string \<times> panel_desc_dsi) list" where
  "dsi_of_match =
     [(''sc20,ili9881c'', sc20_ili9881c),
      (''lg,lh500wx1-sd03'', lg_lh500wx1_sd03),
      (''panasonic,vvx10f004b00'', panasonic_vvx10f004b00)]"

definition of_match_node :: "(string \<times> 'a) list \<Rightarrow> string \<Rightarrow> 'a option" where
  "of_match_node table compatible = map_of table compatible"

text \<open>
  The commands that \<^verbatim>\<open>panel_simple_dsi_probe\<close> sends, in the order of the source:
  each \<^verbatim>\<open>mipi_dsi_dcs_write(dsi, cmd, (u8[]){...}, 1)\<close> is a \<open>DcsWrite\<close> with \<open>cmd\<close>
  and the array, the \<^verbatim>\<open>msleep(1)\<close> a \<open>Sleep\<close>. Every write is given the length 1.
\<close>

datatype init_step = DcsWrite "8 word" "8 word list" | Sleep nat

definition ili9881c_init :: "init_step list" where
  "ili9881c_init = [
    DcsWrite 0xff [0x98, 0x81, 0x03], DcsWrite 0x01 [0x00], DcsWrite 0x02 [0x00],
     DcsWrite 0x03 [0x73], DcsWrite 0x04 [0x03], DcsWrite 0x05 [0x00], DcsWrite 0x06 [0x06],
     DcsWrite 0x07 [0x06], DcsWrite 0x08 [0x00], DcsWrite 0x09 [0x18], DcsWrite 0x0a [0x04],
     DcsWrite 0x0b [0x00], DcsWrite 0x0c [0x02], DcsWrite 0x0d [0x03], DcsWrite 0x0e [0x00],
     DcsWrite 0x0f [0x25], DcsWrite 0x10 [0x25], DcsWrite 0x11 [0x00], DcsWrite 0x12 [0x00],
     DcsWrite 0x13 [0x00], DcsWrite 0x14 [0x00], DcsWrite 0x15 [0x00], DcsWrite 0x16 [0x0c],
     DcsWrite 0x17 [0x00], DcsWrite 0x18 [0x00], DcsWrite 0x19 [0x00], DcsWrite 0x1a [0x00],
     DcsWrite 0x1b [0x00], DcsWrite 0x1c [0x00], DcsWrite 0x1d [0x00], DcsWrite 0x1e [0xc0],
     DcsWrite 0x1f [0x80], DcsWrite 0x20 [0x04], DcsWrite 0x21 [0x01], DcsWrite 0x22 [0x00],
     DcsWrite 0x23 [0x00], DcsWrite 0x24 [0x00], DcsWrite 0x25 [0x00], DcsWrite 0x26 [0x00],
     DcsWrite 0x27 [0x00], DcsWrite 0x28 [0x33], DcsWrite 0x29 [0x03], DcsWrite 0x2a [0x00],
     DcsWrite 0x2b [0x00], DcsWrite 0x2c [0x00], DcsWrite 0x2d [0x00], DcsWrite 0x2e [0x00],
     DcsWrite 0x2f [0x00], DcsWrite 0x30 [0x00], DcsWrite 0x31 [0x00], DcsWrite 0x32 [0x00],
     DcsWrite 0x33 [0x00], DcsWrite 0x34 [0x04], DcsWrite 0x35 [0x00], DcsWrite 0x36 [0x00],
     DcsWrite 0x37 [0x00], DcsWrite 0x38 [0x3c], DcsWrite 0x39 [0x00], DcsWrite 0x3a [0x00],
     DcsWrite 0x3b [0x00], DcsWrite 0x3c [0x00], DcsWrite 0x3d [0x00], DcsWrite 0x3e [0x00],
     DcsWrite 0x3f [0x00], DcsWrite 0x40 [0x00], DcsWrite 0x41 [0x00], DcsWrite 0x42 [0x00],
     DcsWrite 0x43 [0x00], DcsWrite 0x44 [0x00], DcsWrite 0x50 [0x01], DcsWrite 0x51 [0x23],
     DcsWrite 0x52 [0x45], DcsWrite 0x53 [0x67], DcsWrite 0x54 [0x89], DcsWrite 0x55 [0xab],
     DcsWrite 0x56 [0x01], DcsWrite 0x57 [0x23], DcsWrite 0x58 [0x45], DcsWrite 0x59 [0x67],
     DcsWrite 0x5a [0x89], DcsWrite 0x5b [0xab], DcsWrite 0x5c [0xcd], DcsWrite 0x5d [0xef],
     DcsWrite 0x5e [0x11], DcsWrite 0x5f [0x02], DcsWrite 0x60 [0x02], DcsWrite 0x61 [0x02],
     DcsWrite 0x62 [0x02], DcsWrite 0x63 [0x02], DcsWrite 0x64 [0x02], DcsWrite 0x65 [0x02],
     DcsWrite 0x66 [0x02], DcsWrite 0x67 [0x02], DcsWrite 0x68 [0x02], DcsWrite 0x69 [0x02],
     DcsWrite 0x6a [0x0c], DcsWrite 0x6b [0x02], DcsWrite 0x6c [0x0f], DcsWrite 0x6d [0x0e],
     DcsWrite 0x6e [0x0d], DcsWrite 0x6f [0x06], DcsWrite 0x70 [0x07], DcsWrite 0x71 [0x02],
     DcsWrite 0x72 [0x02], DcsWrite 0x73 [0x02], DcsWrite 0x74 [0x02], DcsWrite 0x75 [0x02],
     DcsWrite 0x76 [0x02], DcsWrite 0x77 [0x02], DcsWrite 0x78 [0x02], DcsWrite 0x79 [0x02],
     DcsWrite 0x7a [0x02], DcsWrite 0x7b [0x02], DcsWrite 0x7c [0x02], DcsWrite 0x7d [0x02],
     DcsWrite 0x7e [0x02], DcsWrite 0x7f [0x02], DcsWrite 0x80 [0x0c], DcsWrite 0x81 [0x02],
     DcsWrite 0x82 [0x0f], DcsWrite 0x83 [0x0e], DcsWrite 0x84 [0x0d], DcsWrite 0x85 [0x06],
     DcsWrite 0x86 [0x07], DcsWrite 0x87 [0x02], DcsWrite 0x88 [0x02], DcsWrite 0x89 [0x02],
     DcsWrite 0x8a [0x02], DcsWrite 0xff [0x98, 0x81, 0x04], DcsWrite 0x6c [0x15],
     DcsWrite 0x6e [0x22], DcsWrite 0x6f [0x33], DcsWrite 0x3a [0xa4], DcsWrite 0x8d [0x0d],
     DcsWrite 0x87 [0xba], DcsWrite 0x26 [0x76], DcsWrite 0xb2 [0xd1],
     DcsWrite 0xff [0x98, 0x81, 0x01], DcsWrite 0x22 [0x0a], DcsWrite 0x53 [0xbe],
     DcsWrite 0x55 [0xa7], DcsWrite 0x50 [0x74], DcsWrite 0x51 [0x74], DcsWrite 0x31 [0x02],
     DcsWrite 0x60 [0x14], DcsWrite 0xa0 [0x15], DcsWrite 0xa1 [0x26], DcsWrite 0xa2 [0x2b],
     DcsWrite 0xa3 [0x14], DcsWrite 0xa4 [0x17], DcsWrite 0xa5 [0x2c], DcsWrite 0xa6 [0x20],
     DcsWrite 0xa7 [0x21], DcsWrite 0xa8 [0x95], DcsWrite 0xa9 [0x1d], DcsWrite 0xaa [0x27],
     DcsWrite 0xab [0x89], DcsWrite 0xac [0x1a], DcsWrite 0xad [0x18], DcsWrite 0xae [0x4b],
     DcsWrite 0xaf [0x21], DcsWrite 0xb0 [0x26], DcsWrite 0xb1 [0x60], DcsWrite 0xb2 [0x71],
     DcsWrite 0xb3 [0x3f], DcsWrite 0xc0 [0x05], DcsWrite 0xc1 [0x26], DcsWrite 0xc2 [0x3f],
     DcsWrite 0xc3 [0x0f], DcsWrite 0xc4 [0x14], DcsWrite 0xc5 [0x27], DcsWrite 0xc6 [0x1a],
     DcsWrite 0xc7 [0x1e], DcsWrite 0xc8 [0x9e], DcsWrite 0xc9 [0x1a], DcsWrite 0xca [0x29],
     DcsWrite 0xcb [0x82], DcsWrite 0xcc [0x18], DcsWrite 0xcd [0x16], DcsWrite 0xce [0x4c],
     DcsWrite 0xcf [0x1f], DcsWrite 0xd0 [0x28], DcsWrite 0xd1 [0x53], DcsWrite 0xd2 [0x62],
     DcsWrite 0xd3 [0x3f], DcsWrite 0xff [0x98, 0x81, 0x00], Sleep 1, DcsWrite 0x11 [0x00],
     DcsWrite 0x29 [0x00], DcsWrite 0x35 [0x00]]"

text \<open>
  Running the steps. \<open>w\<close> gives the return value of the \<open>n\<close>-th write; the C variable
  \<^verbatim>\<open>ret\<close> takes it, write after write, and the function returns its last value with
  the calls made.
\<close>

fun dsi_init_run ::
  "(nat \<Rightarrow> int) \<Rightarrow> nat \<Rightarrow> init_step list \<Rightarrow> int \<Rightarrow> int \<times> hw_call list" where
  "dsi_init_run w n [] ret = (ret, [])"
| "dsi_init_run w n (DcsWrite cmd data # steps) ret =
     (case dsi_init_run w (Suc n) steps (w n) of
        (ret', t) \<Rightarrow> (ret', MipiDsiDcsWrite cmd data 1 # t))"
| "dsi_init_run w n (Sleep ms # steps) ret =
     (case dsi_init_run w n steps ret of (ret', t) \<Rightarrow> (ret', Msleep ms # t))"

text \<open>
  The DSI device: the three fields the probe writes. What the kernel answers during
  \<^verbatim>\<open>panel_simple_dsi_probe\<close>: the answers for \<^verbatim>\<open>panel_simple_probe\<close>, the return value
  of each write, and that of \<^verbatim>\<open>mipi_dsi_attach\<close>.
\<close>

record mipi_dsi_device =
  mode_flags :: "mipi_dsi_mode_flag list"
  dsi_format :: "mipi_dsi_pixel_format option"
  dsi_lanes :: "32 word"

record dsi_results =
  probe_res :: probe_results
  mipi_dsi_dcs_write_ret :: "nat \<Rightarrow> int"
  mipi_dsi_attach_ret :: int

text \<open>
  \<^verbatim>\<open>panel_simple_dsi_probe\<close>: \<^verbatim>\<open>-ENODEV\<close> when no entry matches; the error of
  \<^verbatim>\<open>panel_simple_probe\<close> when it fails; otherwise the mode flags, the writes (whose
  last \<^verbatim>\<open>ret\<close> is not read), format and lanes, and the result of \<^verbatim>\<open>mipi_dsi_attach\<close>
  as the return value.
\<close>

definition panel_simple_dsi_probe ::
  "(int \<Rightarrow> bool) \<Rightarrow> dsi_results \<Rightarrow> string \<Rightarrow> mipi_dsi_device
     \<Rightarrow> int \<times> mipi_dsi_device \<times> panel_simple option \<times> hw_call list" where
  "panel_simple_dsi_probe gpio_is_valid k compatible dsi =
     (case of_match_node dsi_of_match compatible of
        None \<Rightarrow> (- ENODEV, dsi, None, [OfMatchNode])
      | Some d \<Rightarrow>
          (case panel_simple_probe gpio_is_valid (probe_res k) (Some (dsi_desc d)) of
             (err, q, t) \<Rightarrow>
               if err < 0 then (err, dsi, q, [OfMatchNode] @ t)
               else
                 let dsi1 = dsi\<lparr>mode_flags := flags d\<rparr>;
                     (ret, t') = dsi_init_run (mipi_dsi_dcs_write_ret k) 0 ili9881c_init 0;
                     dsi2 = dsi1\<lparr>dsi_format := Some (format d), dsi_lanes := lanes d\<rparr>
                 in (mipi_dsi_attach_ret k, dsi2, q, [OfMatchNode] @ t @ t' @ [MipiDsiAttach])))"

subsection \<open>Resources held\<close>

text \<open>
  The resources the probe takes with a call of its own and has to give back with one:
  the GPIO line (\<^verbatim>\<open>gpio_request\<close>, \<^verbatim>\<open>gpio_free\<close>), the references to the backlight and
  to the I2C adapter (\<^verbatim>\<open>of_find_..._by_node\<close>, \<^verbatim>\<open>put_device\<close>), and the entry in the
  panel list (\<^verbatim>\<open>drm_panel_add\<close>; the driver removes it with \<^verbatim>\<open>drm_panel_remove\<close> in
  \<^verbatim>\<open>panel_simple_remove\<close> only).
\<close>

datatype resource = GpioLine int | BacklightRef | DdcRef | PanelListEntry

fun acquires :: "hw_call \<Rightarrow> resource option" where
  "acquires (GpioRequest g r) = (if r < 0 then None else Some (GpioLine g))"
| "acquires (OfFindBacklightByNode found) = (if found then Some BacklightRef else None)"
| "acquires (OfFindI2cAdapterByNode found) = (if found then Some DdcRef else None)"
| "acquires (DrmPanelAdd r) = (if r < 0 then None else Some PanelListEntry)"
| "acquires _ = None"

fun releases :: "hw_call \<Rightarrow> resource option" where
  "releases (GpioFree g) = Some (GpioLine g)"
| "releases PutDeviceBacklight = Some BacklightRef"
| "releases PutDeviceDdc = Some DdcRef"
| "releases _ = None"

text \<open>
  \<open>held st t\<close>: the resources held after the calls \<open>t\<close>, latest first, starting from
  \<open>st\<close>; \<open>None\<close> when a call releases something other than the latest resource taken and
  still held (a release out of reverse order, or of a resource not held).
\<close>

fun held :: "resource list \<Rightarrow> hw_call list \<Rightarrow> resource list option" where
  "held st [] = Some st"
| "held st (c # t) =
     (case acquires c of
        Some r \<Rightarrow> held (r # st) t
      | None \<Rightarrow>
          (case releases c of
             None \<Rightarrow> held st t
           | Some r \<Rightarrow>
               (case st of
                  [] \<Rightarrow> None
                | r' # st' \<Rightarrow> if r' = r then held st' t else None)))"

subsection \<open>Reading a list of calls\<close>

text \<open>
  Which calls are DCS writes; the layer a call of the power sequence goes to; the
  \<^verbatim>\<open>(line, value)\<close> pairs of the \<^verbatim>\<open>gpio_set_value\<close> calls; the arguments of the
  EDID property updates and of the \<^verbatim>\<open>drm_add_edid_modes\<close> calls.
\<close>

fun is_dcs_write :: "hw_call \<Rightarrow> bool" where
  "is_dcs_write (MipiDsiDcsWrite cmd data len) = True"
| "is_dcs_write _ = False"

datatype layer = Regulator | Gpio | Backlight | Other

fun layer_of :: "hw_call \<Rightarrow> layer" where
  "layer_of RegulatorEnable = Regulator"
| "layer_of RegulatorDisable = Regulator"
| "layer_of (GpioSetValue g v) = Gpio"
| "layer_of (BacklightUpdateStatus lvl) = Backlight"
| "layer_of _ = Other"

fun gpio_levels :: "hw_call list \<Rightarrow> (int \<times> int) list" where
  "gpio_levels [] = []"
| "gpio_levels (GpioSetValue g v # t) = (g, v) # gpio_levels t"
| "gpio_levels (c # t) = gpio_levels t"

fun edid_property_updates :: "hw_call list \<Rightarrow> edid option list" where
  "edid_property_updates [] = []"
| "edid_property_updates (DrmModeConnectorUpdateEdidProperty e # t) = e # edid_property_updates t"
| "edid_property_updates (c # t) = edid_property_updates t"

fun edid_mode_adds :: "hw_call list \<Rightarrow> edid list" where
  "edid_mode_adds [] = []"
| "edid_mode_adds (DrmAddEdidModes e # t) = e # edid_mode_adds t"
| "edid_mode_adds (c # t) = edid_mode_adds t"

text \<open>
  The pieces of the power sequence, for stating what \<^verbatim>\<open>enable\<close> and \<^verbatim>\<open>disable\<close> do:
  the GPIO call, with the value for an active-low line and the value otherwise; the
  backlight call; the panel with the backlight's \<^verbatim>\<open>props.power\<close> set.
\<close>

definition gpio_calls :: "(int \<Rightarrow> bool) \<Rightarrow> panel_simple \<Rightarrow> int \<Rightarrow> int \<Rightarrow> hw_call list" where
  "gpio_calls gpio_is_valid p low high =
     (if gpio_is_valid (enable_gpio p)
      then [GpioSetValue (enable_gpio p)
              (if enable_gpio_flags p AND GPIO_ACTIVE_LOW \<noteq> 0 then low else high)]
      else [])"

definition backlight_calls :: "panel_simple \<Rightarrow> fb_blank \<Rightarrow> hw_call list" where
  "backlight_calls p lvl = (if backlight p \<noteq> None then [BacklightUpdateStatus lvl] else [])"

definition with_power :: "fb_blank \<Rightarrow> panel_simple \<Rightarrow> panel_simple" where
  "with_power lvl p = p\<lparr>backlight := map_option (\<lambda>bl. bl\<lparr>props_power := lvl\<rparr>) (backlight p)\<rparr>"

text \<open>
  For the mode list: the modes of the descriptor (none without a descriptor); those of
  them, from index \<open>i\<close> on, whose duplication succeeds; the count and the connector after
  the EDID part of \<^verbatim>\<open>panel_simple_get_modes\<close>, and the calls of that part.
\<close>

definition desc_modes :: "panel_simple \<Rightarrow> drm_display_mode list" where
  "desc_modes p = (case desc p of None \<Rightarrow> [] | Some d \<Rightarrow> modes d)"

fun duplicated :: "(nat \<Rightarrow> bool) \<Rightarrow> nat \<Rightarrow> drm_display_mode list \<Rightarrow> drm_display_mode list" where
  "duplicated dup_ok i [] = []"
| "duplicated dup_ok i (m # ms) = (if dup_ok i then [m] else []) @ duplicated dup_ok (Suc i) ms"

definition edid_part :: "drm_results \<Rightarrow> panel_simple \<Rightarrow> drm_connector \<Rightarrow> 32 word \<times> drm_connector" where
  "edid_part drm p c =
     (case ddc p of
        None \<Rightarrow> (0, c)
      | Some bus \<Rightarrow>
          (case drm_get_edid_ret drm of
             None \<Rightarrow> (0, c\<lparr>edid_property := None\<rparr>)
           | Some e \<Rightarrow> drm_add_edid_modes drm (c\<lparr>edid_property := Some e\<rparr>) e))"

definition edid_calls :: "drm_results \<Rightarrow> panel_simple \<Rightarrow> hw_call list" where
  "edid_calls drm p =
     (case ddc p of
        None \<Rightarrow> []
      | Some bus \<Rightarrow>
          [DrmGetEdid, DrmModeConnectorUpdateEdidProperty (drm_get_edid_ret drm)]
            @ (case drm_get_edid_ret drm of None \<Rightarrow> [] | Some e \<Rightarrow> [DrmAddEdidModes e, Kfree]))"

text \<open>
  The call a step of the init sequence makes; the resources a panel under probe holds,
  latest first, according to its fields.
\<close>

fun step_call :: "init_step \<Rightarrow> hw_call" where
  "step_call (DcsWrite cmd data) = MipiDsiDcsWrite cmd data 1"
| "step_call (Sleep ms) = Msleep ms"

definition stack_of :: "(int \<Rightarrow> bool) \<Rightarrow> panel_simple \<Rightarrow> resource list" where
  "stack_of gpio_is_valid p =
     (if ddc p \<noteq> None then [DdcRef] else [])
       @ (if backlight p \<noteq> None then [BacklightRef] else [])
       @ (if gpio_is_valid (enable_gpio p) then [GpioLine (enable_gpio p)] else [])"

subsection \<open>Example boards\<close>

text \<open>
  Concrete inputs: a \<^verbatim>\<open>gpio_is_valid\<close> that accepts the lines 0 to 255; hardware that
  answers 0 everywhere, and hardware whose regulator and backlight calls fail; the panel
  as the probe leaves it for \<^verbatim>\<open>sc20,ili9881c\<close> with a backlight and an active-high
  enable GPIO on line 17, and the same panel with a DDC bus.
\<close>

definition gpio_in_range :: "int \<Rightarrow> bool" where
  "gpio_in_range g = (0 \<le> g \<and> g < 256)"

definition hw_ok :: hw_results where
  "hw_ok = \<lparr>regulator_enable_ret = 0, regulator_disable_ret = 0,
            backlight_update_status_ret = 0\<rparr>"

definition hw_faulty :: hw_results where
  "hw_faulty = \<lparr>regulator_enable_ret = - 22, regulator_disable_ret = - 5,
                backlight_update_status_ret = - 5\<rparr>"

definition sc20_panel :: panel_simple where
  "sc20_panel =
     \<lparr>enabled = False, desc = Some (dsi_desc sc20_ili9881c),
      backlight = Some \<lparr>props_power = FB_BLANK_POWERDOWN\<rparr>, supply_regulator = 1,
      ddc = None, enable_gpio_flags = 0, enable_gpio = 17\<rparr>"

definition sc20_panel_on :: panel_simple where
  "sc20_panel_on =
     sc20_panel\<lparr>backlight := Some \<lparr>props_power = FB_BLANK_UNBLANK\<rparr>, enabled := True\<rparr>"

definition sc20_panel_active_low :: panel_simple where
  "sc20_panel_active_low = sc20_panel\<lparr>enable_gpio_flags := GPIO_ACTIVE_LOW\<rparr>"

definition sc20_panel_ddc :: panel_simple where
  "sc20_panel_ddc = sc20_panel\<lparr>ddc := Some 2\<rparr>"

text \<open>
  Modelled from the spec: \<^verbatim>\<open>drm_add_edid_modes\<close>, a function of the DRM core that is
  not part of the driver's file, as an EDID reader that adds the modes of a blob to the
  connector and returns their count. This one finds the modes \<open>ms\<close> in any blob. A DRM core that reads a blob with three
  modes and duplicates every mode; one that reads no blob and duplicates none. A
  connector with an EDID property left from before.
\<close>

definition edid_adds ::
  "drm_display_mode list \<Rightarrow> drm_connector \<Rightarrow> edid \<Rightarrow> 32 word \<times> drm_connector" where
  "edid_adds ms c e = (of_nat (length ms), c\<lparr>probed_modes := probed_modes c @ ms\<rparr>)"

definition three_modes :: "drm_display_mode list" where
  "three_modes = [lg_lh500wx1_sd03_mode, panasonic_vvx10f004b00_mode, lg_lh500wx1_sd03_mode]"

definition drm_with_edid :: drm_results where
  "drm_with_edid =
     \<lparr>drm_get_edid_ret = Some (Edid [0, 255, 255]),
      drm_add_edid_modes = edid_adds three_modes,
      drm_mode_duplicate_ok = (\<lambda>i. True)\<rparr>"

definition drm_no_edid :: drm_results where
  "drm_no_edid =
     \<lparr>drm_get_edid_ret = None,
      drm_add_edid_modes = edid_adds three_modes,
      drm_mode_duplicate_ok = (\<lambda>i. False)\<rparr>"

definition connector0 :: drm_connector where
  "connector0 =
     \<lparr>probed_modes = [], width_mm = 0, height_mm = 0, edid_property = Some (Edid [1, 2, 3])\<rparr>"

text \<open>
  A board on which every step of the probe succeeds: enable GPIO on line 17, active
  high, a backlight and a DDC bus; the same board before its backlight device exists.
  The calls \<^verbatim>\<open>panel_simple_probe\<close> makes on the first. A DSI host on which everything
  succeeds, one whose \<^verbatim>\<open>mipi_dsi_attach\<close> fails with \<^verbatim>\<open>-EINVAL\<close>, and a DSI device
  before the probe.
\<close>

definition board_ok :: probe_results where
  "board_ok =
     \<lparr>devm_kzalloc_ok = True, devm_regulator_get_ret = Inr 1,
      of_get_named_gpio_ret = 17, of_gpio_flags = 0,
      gpio_request_ret = 0, gpio_direction_output_ret = 0,
      backlight_phandle = True,
      of_find_backlight_ret = Some \<lparr>props_power = FB_BLANK_POWERDOWN\<rparr>,
      ddc_phandle = True, of_find_i2c_adapter_ret = Some 2,
      drm_panel_add_ret = 0\<rparr>"

definition board_no_backlight_yet :: probe_results where
  "board_no_backlight_yet = board_ok\<lparr>of_find_backlight_ret := None\<rparr>"

definition dsi_ok :: dsi_results where
  "dsi_ok = \<lparr>probe_res = board_ok, mipi_dsi_dcs_write_ret = (\<lambda>n. 0), mipi_dsi_attach_ret = 0\<rparr>"

definition dsi_attach_fails :: dsi_results where
  "dsi_attach_fails = dsi_ok\<lparr>mipi_dsi_attach_ret := - 22\<rparr>"

definition dsi0 :: mipi_dsi_device where
  "dsi0 = \<lparr>mode_flags = [], dsi_format = None, dsi_lanes = 0\<rparr>"

definition ok_probe_calls :: "hw_call list" where
  "ok_probe_calls =
     [DevmKzalloc, DevmRegulatorGet, OfGetNamedGpioFlags, GpioRequest 17 0,
      GpioDirectionOutput 17 0,
      OfParsePhandle ''backlight'', OfFindBacklightByNode True, OfNodePut,
      OfParsePhandle ''ddc-i2c-bus'', OfFindI2cAdapterByNode True, OfNodePut,
      DrmPanelInit, DrmPanelAdd 0, DevSetDrvdata]"

section \<open>Properties\<close>

subsection \<open>What enable and disable do\<close>

lemma enable_when_enabled: "enabled p \<Longrightarrow> panel_simple_enable V hw p = (0, p, [])"
  by (simp add: panel_simple_enable_def)

lemma disable_when_disabled: "\<not> enabled p \<Longrightarrow> panel_simple_disable V hw p = (0, p, [])"
  by (simp add: panel_simple_disable_def)

lemma enable_regulator_fails:
  "\<not> enabled p \<Longrightarrow> regulator_enable_ret hw < 0 \<Longrightarrow>
   panel_simple_enable V hw p = (regulator_enable_ret hw, p, [RegulatorEnable])"
  by (simp add: panel_simple_enable_def Let_def)

lemma enable_succeeds:
  "\<not> enabled p \<Longrightarrow> 0 \<le> regulator_enable_ret hw \<Longrightarrow>
   panel_simple_enable V hw p =
     (0, (with_power FB_BLANK_UNBLANK p)\<lparr>enabled := True\<rparr>,
      [RegulatorEnable] @ gpio_calls V p 0 1 @ backlight_calls p FB_BLANK_UNBLANK)"
  by (cases "backlight p")
     (simp_all add: panel_simple_enable_def Let_def gpio_calls_def backlight_calls_def with_power_def)

lemma disable_when_enabled:
  "enabled p \<Longrightarrow>
   panel_simple_disable V hw p =
     (0, (with_power FB_BLANK_POWERDOWN p)\<lparr>enabled := False\<rparr>,
      backlight_calls p FB_BLANK_POWERDOWN @ gpio_calls V p 1 0 @ [RegulatorDisable])"
  by (cases "backlight p")
     (simp_all add: panel_simple_disable_def Let_def gpio_calls_def backlight_calls_def with_power_def)

lemma with_power_fields [simp]:
  "enabled (with_power lvl p) = enabled p"
  "enable_gpio (with_power lvl p) = enable_gpio p"
  "enable_gpio_flags (with_power lvl p) = enable_gpio_flags p"
  "(backlight (with_power lvl p) = None) = (backlight p = None)"
  by (simp_all add: with_power_def)

lemma sc20_panel_fields [simp]:
  "enabled sc20_panel = False" "enable_gpio sc20_panel = 17" "enable_gpio_flags sc20_panel = 0"
  "backlight sc20_panel = Some \<lparr>props_power = FB_BLANK_POWERDOWN\<rparr>"
  by (simp_all add: sc20_panel_def)

lemma hw_fields [simp]:
  "regulator_enable_ret hw_ok = 0" "regulator_enable_ret hw_faulty = - 22"
  by (simp_all add: hw_ok_def hw_faulty_def)

lemma gpio_in_range_17 [simp]: "gpio_in_range 17"
  by (simp add: gpio_in_range_def)

text \<open>
  C1, as amended. An \<^verbatim>\<open>enable\<close> of a disabled panel that returns 0 calls
  \<^verbatim>\<open>regulator_enable\<close>, then drives the enable GPIO to its asserted level (when the line
  is valid), then sets the backlight to unblank (when there is one), in that order, and
  sends no DCS write: \<^verbatim>\<open>panel_simple_enable\<close> has no DSI call, the init commands are
  sent by \<^verbatim>\<open>panel_simple_dsi_probe\<close>. The \<^verbatim>\<open>disable\<close> that follows makes the calls of
  the three layers in the reverse order: backlight powerdown, GPIO deasserted, regulator
  off.
\<close>

theorem enable_then_disable_order:
  assumes "\<not> enabled p"
    and "panel_simple_enable V hw p = (0, p', t)"
    and "panel_simple_disable V hw' p' = (r', p'', t')"
  shows "r' = 0 \<and> enabled p' \<and> \<not> enabled p'' \<and>
    t = [RegulatorEnable]
        @ (if V (enable_gpio p)
           then [GpioSetValue (enable_gpio p) (if enable_gpio_flags p AND GPIO_ACTIVE_LOW \<noteq> 0 then 0 else 1)]
           else [])
        @ (if backlight p \<noteq> None then [BacklightUpdateStatus FB_BLANK_UNBLANK] else []) \<and>
    \<not> list_ex is_dcs_write t \<and>
    t' = (if backlight p \<noteq> None then [BacklightUpdateStatus FB_BLANK_POWERDOWN] else [])
        @ (if V (enable_gpio p)
           then [GpioSetValue (enable_gpio p) (if enable_gpio_flags p AND GPIO_ACTIVE_LOW \<noteq> 0 then 1 else 0)]
           else [])
        @ [RegulatorDisable] \<and>
    map layer_of t' = rev (map layer_of t)"
proof -
  from assms(1,2) have ok: "0 \<le> regulator_enable_ret hw"
    by (cases "regulator_enable_ret hw < 0") (simp_all add: enable_regulator_fails)
  from assms(1,2) ok have e: "p' = (with_power FB_BLANK_UNBLANK p)\<lparr>enabled := True\<rparr>"
    "t = [RegulatorEnable] @ gpio_calls V p 0 1 @ backlight_calls p FB_BLANK_UNBLANK"
    by (simp_all add: enable_succeeds)
  from e(1) have en: "enabled p'" by simp
  from assms(3) en have d: "r' = 0" "p'' = (with_power FB_BLANK_POWERDOWN p')\<lparr>enabled := False\<rparr>"
    "t' = backlight_calls p' FB_BLANK_POWERDOWN @ gpio_calls V p' 1 0 @ [RegulatorDisable]"
    by (simp_all add: disable_when_enabled)
  have g: "gpio_calls V p' 1 0 = gpio_calls V p 1 0"
    and b: "backlight_calls p' FB_BLANK_POWERDOWN = backlight_calls p FB_BLANK_POWERDOWN"
    by (simp_all add: e(1) gpio_calls_def backlight_calls_def)
  show ?thesis
    unfolding d(1) e(2) d(3) g b
    using en d(2) by (simp add: gpio_calls_def backlight_calls_def)
qed

theorem enable_then_disable_order_witness:
  "\<not> enabled sc20_panel \<and>
   panel_simple_enable gpio_in_range hw_ok sc20_panel =
     (0, sc20_panel_on,
      [RegulatorEnable, GpioSetValue 17 1, BacklightUpdateStatus FB_BLANK_UNBLANK]) \<and>
   panel_simple_disable gpio_in_range hw_faulty
       sc20_panel_on =
     (0, sc20_panel\<lparr>backlight := Some \<lparr>props_power = FB_BLANK_POWERDOWN\<rparr>, enabled := False\<rparr>,
      [BacklightUpdateStatus FB_BLANK_POWERDOWN, GpioSetValue 17 0, RegulatorDisable]) \<and>
   map layer_of [BacklightUpdateStatus FB_BLANK_POWERDOWN, GpioSetValue 17 0, RegulatorDisable] =
     rev (map layer_of [RegulatorEnable, GpioSetValue 17 1, BacklightUpdateStatus FB_BLANK_UNBLANK])"
proof -
  have a: "\<not> enabled sc20_panel" by simp
  have e: "panel_simple_enable gpio_in_range hw_ok sc20_panel =
     (0, sc20_panel_on,
      [RegulatorEnable, GpioSetValue 17 1, BacklightUpdateStatus FB_BLANK_UNBLANK])"
    by (simp add: sc20_panel_on_def enable_succeeds with_power_def gpio_calls_def backlight_calls_def)
  have d: "panel_simple_disable gpio_in_range hw_faulty
       sc20_panel_on =
     (0, sc20_panel\<lparr>backlight := Some \<lparr>props_power = FB_BLANK_POWERDOWN\<rparr>, enabled := False\<rparr>,
      [BacklightUpdateStatus FB_BLANK_POWERDOWN, GpioSetValue 17 0, RegulatorDisable])"
    by (simp add: sc20_panel_on_def disable_when_enabled with_power_def gpio_calls_def backlight_calls_def)
  from enable_then_disable_order [OF a e d] a e d show ?thesis by blast
qed

text \<open>
  C2. Whatever calls came before, after \<^verbatim>\<open>disable\<close> returns the \<^verbatim>\<open>enabled\<close> flag is
  false, and after \<^verbatim>\<open>enable\<close> returns 0 the flag is true.
\<close>

theorem enabled_flag_after_call:
  "\<not> enabled (fst (snd (panel_simple_disable V hw (run V rs p)))) \<and>
   (fst (panel_simple_enable V hw (run V rs p)) = 0 \<longrightarrow>
      enabled (fst (snd (panel_simple_enable V hw (run V rs p)))))"
proof -
  have d: "\<not> enabled (fst (snd (panel_simple_disable V hw q)))" for q
    by (cases "enabled q") (simp_all add: disable_when_enabled disable_when_disabled)
  have e: "enabled (fst (snd (panel_simple_enable V hw q)))"
    if "fst (panel_simple_enable V hw q) = 0" for q
  proof (cases "enabled q")
    case True
    then show ?thesis by (simp add: enable_when_enabled)
  next
    case False
    with that have "0 \<le> regulator_enable_ret hw"
      by (cases "regulator_enable_ret hw < 0") (simp_all add: enable_regulator_fails)
    with False show ?thesis by (simp add: enable_succeeds)
  qed
  from d e show ?thesis by blast
qed

theorem enabled_flag_after_call_witness:
  "fst (panel_simple_enable gpio_in_range hw_ok
          (run gpio_in_range [Enable hw_faulty, Disable hw_ok] sc20_panel)) = 0 \<and>
   enabled (fst (snd (panel_simple_enable gpio_in_range hw_ok
          (run gpio_in_range [Enable hw_faulty, Disable hw_ok] sc20_panel))))"
proof -
  have r: "run gpio_in_range [Enable hw_faulty, Disable hw_ok] sc20_panel = sc20_panel"
    by (simp add: enable_regulator_fails disable_when_disabled)
  have "fst (panel_simple_enable gpio_in_range hw_ok
          (run gpio_in_range [Enable hw_faulty, Disable hw_ok] sc20_panel)) = 0"
    unfolding r by (simp add: enable_succeeds)
  with enabled_flag_after_call
         [of gpio_in_range hw_ok "[Enable hw_faulty, Disable hw_ok]" sc20_panel]
  show ?thesis by blast
qed

text \<open>
  C3. \<^verbatim>\<open>enable\<close> on an enabled panel and \<^verbatim>\<open>disable\<close> on a disabled one return 0,
  make no call and leave the panel as it is. So a second \<^verbatim>\<open>enable\<close> after one that
  returned 0, and a second \<^verbatim>\<open>disable\<close> after any \<^verbatim>\<open>disable\<close>, return 0 and add
  nothing: calls and final panel of the doubled call are those of the single call.
\<close>

theorem enable_disable_idempotent:
  "(enabled p \<longrightarrow> panel_simple_enable V hw p = (0, p, [])) \<and>
   (\<not> enabled p \<longrightarrow> panel_simple_disable V hw p = (0, p, [])) \<and>
   (fst (panel_simple_enable V hw p) = 0 \<longrightarrow>
      panel_simple_enable V hw' (run V [Enable hw] p) = (0, run V [Enable hw] p, []) \<and>
      run_calls V [Enable hw, Enable hw'] p = run_calls V [Enable hw] p \<and>
      run V [Enable hw, Enable hw'] p = run V [Enable hw] p) \<and>
   panel_simple_disable V hw' (run V [Disable hw] p) = (0, run V [Disable hw] p, []) \<and>
   run_calls V [Disable hw, Disable hw'] p = run_calls V [Disable hw] p \<and>
   run V [Disable hw, Disable hw'] p = run V [Disable hw] p"
proof -
  have d: "\<not> enabled (fst (snd (panel_simple_disable V hw p)))"
    by (cases "enabled p") (simp_all add: disable_when_enabled disable_when_disabled)
  have e: "enabled (fst (snd (panel_simple_enable V hw p)))"
    if "fst (panel_simple_enable V hw p) = 0"
  proof (cases "enabled p")
    case True
    then show ?thesis by (simp add: enable_when_enabled)
  next
    case False
    with that have "0 \<le> regulator_enable_ret hw"
      by (cases "regulator_enable_ret hw < 0") (simp_all add: enable_regulator_fails)
    with False show ?thesis by (simp add: enable_succeeds)
  qed
  have d2: "panel_simple_disable V hw' (fst (snd (panel_simple_disable V hw p))) =
              (0, fst (snd (panel_simple_disable V hw p)), [])"
    using d by (rule disable_when_disabled)
  have e2: "panel_simple_enable V hw' (fst (snd (panel_simple_enable V hw p))) =
              (0, fst (snd (panel_simple_enable V hw p)), [])"
    if "fst (panel_simple_enable V hw p) = 0"
    using e [OF that] by (rule enable_when_enabled)
  show ?thesis
    using d2 e2 by (simp add: enable_when_enabled disable_when_disabled)
qed

theorem enable_disable_idempotent_witness:
  "enabled sc20_panel_on \<and>
   panel_simple_enable gpio_in_range hw_faulty sc20_panel_on = (0, sc20_panel_on, []) \<and>
   \<not> enabled sc20_panel \<and>
   panel_simple_disable gpio_in_range hw_faulty sc20_panel = (0, sc20_panel, []) \<and>
   fst (panel_simple_enable gpio_in_range hw_ok sc20_panel) = 0 \<and>
   run_calls gpio_in_range [Enable hw_ok, Enable hw_faulty] sc20_panel =
     run_calls gpio_in_range [Enable hw_ok] sc20_panel"
proof -
  have a: "enabled sc20_panel_on" "\<not> enabled sc20_panel"
    by (simp_all add: sc20_panel_on_def)
  have b: "fst (panel_simple_enable gpio_in_range hw_ok sc20_panel) = 0"
    by (simp add: enable_succeeds)
  from a b
    enable_disable_idempotent [of sc20_panel_on gpio_in_range hw_faulty hw_ok]
    enable_disable_idempotent [of sc20_panel gpio_in_range hw_faulty hw_ok]
    enable_disable_idempotent [of sc20_panel gpio_in_range hw_ok hw_faulty]
  show ?thesis by blast
qed

text \<open>
  C4. When \<^verbatim>\<open>regulator_enable\<close> fails during the \<^verbatim>\<open>enable\<close> of a disabled panel,
  \<^verbatim>\<open>enable\<close> returns that error, the panel is unchanged (so \<^verbatim>\<open>enabled\<close> stays false),
  and \<^verbatim>\<open>regulator_enable\<close> is the only call made: no GPIO and no backlight call.
\<close>

theorem regulator_failure_aborts_enable:
  assumes "\<not> enabled p" and "regulator_enable_ret hw < 0"
  shows "panel_simple_enable V hw p = (regulator_enable_ret hw, p, [RegulatorEnable]) \<and>
         \<not> enabled (fst (snd (panel_simple_enable V hw p))) \<and>
         gpio_levels (snd (snd (panel_simple_enable V hw p))) = [] \<and>
         map layer_of (snd (snd (panel_simple_enable V hw p))) = [Regulator]"
  using assms by (simp add: enable_regulator_fails)

theorem regulator_failure_aborts_enable_witness:
  "\<not> enabled sc20_panel \<and> regulator_enable_ret hw_faulty < 0 \<and>
   panel_simple_enable gpio_in_range hw_faulty sc20_panel = (- 22, sc20_panel, [RegulatorEnable])"
proof -
  have a: "\<not> enabled sc20_panel" "regulator_enable_ret hw_faulty < 0" by simp_all
  from regulator_failure_aborts_enable [OF a, of gpio_in_range] a show ?thesis by simp
qed

text \<open>
  C5. With a valid enable GPIO: when the active-low flag is set, a successful \<^verbatim>\<open>enable\<close>
  writes 0 to the line and \<^verbatim>\<open>disable\<close> writes 1; when it is not set, \<^verbatim>\<open>enable\<close>
  writes 1 and \<^verbatim>\<open>disable\<close> writes 0. Each makes this one GPIO write, so the levels of
  the two polarities are inverted.
\<close>

theorem gpio_polarity:
  assumes "V (enable_gpio p)"
  shows "(\<not> enabled p \<and> 0 \<le> regulator_enable_ret hw \<longrightarrow>
           gpio_levels (snd (snd (panel_simple_enable V hw p))) =
             [(enable_gpio p, if enable_gpio_flags p AND GPIO_ACTIVE_LOW \<noteq> 0 then 0 else 1)]) \<and>
         (enabled p \<longrightarrow>
           gpio_levels (snd (snd (panel_simple_disable V hw p))) =
             [(enable_gpio p, if enable_gpio_flags p AND GPIO_ACTIVE_LOW \<noteq> 0 then 1 else 0)])"
  using assms
  by (simp add: enable_succeeds disable_when_enabled gpio_calls_def backlight_calls_def)

theorem gpio_polarity_witness:
  "gpio_in_range (enable_gpio sc20_panel_active_low) \<and>
   \<not> enabled sc20_panel_active_low \<and> 0 \<le> regulator_enable_ret hw_ok \<and>
   enable_gpio_flags sc20_panel_active_low AND GPIO_ACTIVE_LOW \<noteq> 0 \<and>
   gpio_levels (snd (snd (panel_simple_enable gpio_in_range hw_ok sc20_panel_active_low))) =
     [(17, 0)] \<and>
   gpio_in_range (enable_gpio sc20_panel_on) \<and> enabled sc20_panel_on \<and>
   \<not> enable_gpio_flags sc20_panel_on AND GPIO_ACTIVE_LOW \<noteq> 0 \<and>
   gpio_levels (snd (snd (panel_simple_disable gpio_in_range hw_ok sc20_panel_on))) = [(17, 0)]"
proof -
  have a: "gpio_in_range (enable_gpio sc20_panel_active_low)"
      "\<not> enabled sc20_panel_active_low" "0 \<le> regulator_enable_ret hw_ok"
      "enable_gpio_flags sc20_panel_active_low AND GPIO_ACTIVE_LOW \<noteq> 0"
      "enable_gpio sc20_panel_active_low = 17"
    by (simp_all add: sc20_panel_active_low_def GPIO_ACTIVE_LOW_def)
  have b: "gpio_in_range (enable_gpio sc20_panel_on)" "enabled sc20_panel_on"
      "\<not> enable_gpio_flags sc20_panel_on AND GPIO_ACTIVE_LOW \<noteq> 0"
      "enable_gpio sc20_panel_on = 17"
    by (simp_all add: sc20_panel_on_def)
  from gpio_polarity [of gpio_in_range sc20_panel_active_low hw_ok]
    gpio_polarity [of gpio_in_range sc20_panel_on hw_ok] a b
  show ?thesis by simp
qed

text \<open>
  C9. \<^verbatim>\<open>disable\<close> returns 0 for every panel and whatever the backlight, GPIO and
  regulator calls answer; the answers (that of \<^verbatim>\<open>regulator_disable\<close> among them) change
  nothing of what it returns, leaves or calls.
\<close>

theorem disable_returns_zero:
  "fst (panel_simple_disable V hw p) = 0 \<and>
   panel_simple_disable V hw p = panel_simple_disable V hw' p"
  by (cases "enabled p") (simp_all add: disable_when_enabled disable_when_disabled)

subsection \<open>The mode list\<close>

lemma fixed_modes_loop_result:
  "fixed_modes_loop dup_ok i ms num c = (n, c', t) \<Longrightarrow>
     n = num + of_nat (length (duplicated dup_ok i ms)) \<and>
     c' = c\<lparr>probed_modes := probed_modes c @ duplicated dup_ok i ms\<rparr> \<and>
     edid_property_updates t = [] \<and> edid_mode_adds t = []"
proof (induction ms arbitrary: i num c n c' t)
  case Nil
  then show ?case by simp
next
  case (Cons m ms)
  show ?case
  proof (cases "dup_ok i")
    case True
    obtain n1 c1 t1 where r: "fixed_modes_loop dup_ok (Suc i) ms (num + 1)
        (c\<lparr>probed_modes := probed_modes c @ [m]\<rparr>) = (n1, c1, t1)"
      by (metis prod_cases3)
    from Cons.prems True r have eq: "n = n1" "c' = c1"
      "t = [DrmModeDuplicate i, DrmModeSetName, DrmModeProbedAdd m] @ t1"
      by simp_all
    from Cons.IH [OF r] True show ?thesis
      unfolding eq by simp
  next
    case False
    obtain n1 c1 t1 where r: "fixed_modes_loop dup_ok (Suc i) ms num c = (n1, c1, t1)"
      by (metis prod_cases3)
    from Cons.prems False r have eq: "n = n1" "c' = c1" "t = DrmModeDuplicate i # t1"
      by simp_all
    from Cons.IH [OF r] False show ?thesis
      unfolding eq by simp
  qed
qed

lemma length_duplicated:
  "length (duplicated dup_ok i ms) = length (filter dup_ok [i..<i + length ms])"
proof (induction ms arbitrary: i)
  case Nil
  then show ?case by simp
next
  case (Cons m ms)
  have e: "[i..<Suc (i + length ms)] = i # [Suc i..<Suc (i + length ms)]"
    by (rule upt_conv_Cons) simp
  from Cons [of "Suc i"] show ?case by (simp del: upt_Suc add: e)
qed

lemma get_fixed_modes_None:
  "desc p = None \<Longrightarrow> panel_simple_get_fixed_modes drm p c = (0, c, [])"
  by (simp add: panel_simple_get_fixed_modes_def)

lemma get_fixed_modes_Some:
  assumes "desc p = Some d" and "panel_simple_get_fixed_modes drm p c = (n, c', t)"
  shows "n = of_nat (length (filter (drm_mode_duplicate_ok drm) [0..<length (modes d)])) \<and>
     c' = c\<lparr>probed_modes := probed_modes c @ duplicated (drm_mode_duplicate_ok drm) 0 (modes d),
            width_mm := size_width d, height_mm := size_height d\<rparr> \<and>
     edid_property_updates t = [] \<and> edid_mode_adds t = []"
proof -
  obtain n1 c1 t1 where l: "fixed_modes_loop (drm_mode_duplicate_ok drm) 0 (modes d) 0 c = (n1, c1, t1)"
    by (metis prod_cases3)
  from assms l have eq: "n = n1" "c' = c1\<lparr>width_mm := size_width d, height_mm := size_height d\<rparr>" "t = t1"
    by (simp_all add: panel_simple_get_fixed_modes_def)
  from fixed_modes_loop_result [OF l] show ?thesis
    unfolding eq using length_duplicated [of "drm_mode_duplicate_ok drm" 0 "modes d"] by simp
qed

lemma get_fixed_modes_result:
  assumes "panel_simple_get_fixed_modes drm p c = (n, c', t)"
  shows "n = of_nat (length (filter (drm_mode_duplicate_ok drm) [0..<length (desc_modes p)])) \<and>
     probed_modes c' = probed_modes c @ duplicated (drm_mode_duplicate_ok drm) 0 (desc_modes p) \<and>
     edid_property c' = edid_property c \<and>
     edid_property_updates t = [] \<and> edid_mode_adds t = []"
proof (cases "desc p")
  case None
  with assms get_fixed_modes_None [OF None, of drm c] show ?thesis
    by (simp add: desc_modes_def)
next
  case (Some d)
  from get_fixed_modes_Some [OF Some assms] Some show ?thesis
    by (simp add: desc_modes_def)
qed

lemma get_modes_eq:
  "panel_simple_get_modes drm p c =
     (case panel_simple_get_fixed_modes drm p (snd (edid_part drm p c)) of
        (n2, c2, t2) \<Rightarrow> (fst (edid_part drm p c) + n2, c2, edid_calls drm p @ t2))"
proof (cases "ddc p")
  case None
  then show ?thesis
    by (simp add: panel_simple_get_modes_def edid_part_def edid_calls_def split: prod.split)
next
  case bus: (Some bus)
  show ?thesis
  proof (cases "drm_get_edid_ret drm")
    case None
    with bus show ?thesis
      by (simp add: panel_simple_get_modes_def edid_part_def edid_calls_def split: prod.split)
  next
    case (Some e)
    obtain k c0 where a: "drm_add_edid_modes drm (c\<lparr>edid_property := Some e\<rparr>) e = (k, c0)"
      by (metis prod.exhaust)
    from bus Some a show ?thesis
      by (simp add: panel_simple_get_modes_def edid_part_def edid_calls_def split: prod.split)
  qed
qed

lemma edid_property_updates_append:
  "edid_property_updates (a @ b) = edid_property_updates a @ edid_property_updates b"
  by (induction a rule: edid_property_updates.induct) simp_all

lemma edid_mode_adds_append:
  "edid_mode_adds (a @ b) = edid_mode_adds a @ edid_mode_adds b"
  by (induction a rule: edid_mode_adds.induct) simp_all

lemma edid_calls_updates:
  "edid_property_updates (edid_calls drm p) = (if ddc p = None then [] else [drm_get_edid_ret drm])"
  by (simp add: edid_calls_def split: option.split)

lemma edid_calls_adds:
  "edid_mode_adds (edid_calls drm p) =
     (if ddc p = None then [] else (case drm_get_edid_ret drm of None \<Rightarrow> [] | Some e \<Rightarrow> [e]))"
  by (simp add: edid_calls_def split: option.split)

lemma sint_of_nat_small:
  assumes "n < 2 ^ 31"
  shows "sint (of_nat n :: 32 word) = int n"
proof -
  have "sint (of_nat n :: 32 word) = signed_take_bit 31 (int n)"
    by (simp add: signed_of_nat)
  also have "\<dots> = int n"
  proof (rule signed_take_bit_int_eq_self)
    show "- (2 ^ 31) \<le> int n" by simp
    from assms have "int n < int (2 ^ 31)" by (simp only: of_nat_less_iff)
    then show "int n < 2 ^ 31" by simp
  qed
  finally show ?thesis .
qed

lemma sint_add_of_nat:
  fixes e :: "32 word"
  assumes b: "unat e + k < 2 ^ 31"
  shows "sint (e + of_nat k) = int (unat e) + int k"
proof -
  have "e + of_nat k = of_nat (unat e + k)" by simp
  then have "sint (e + of_nat k) = sint (of_nat (unat e + k) :: 32 word)" by (simp only:)
  also have "\<dots> = int (unat e + k)" using b by (rule sint_of_nat_small)
  finally show ?thesis by (simp only: of_nat_add)
qed

lemma get_modes_with_edid:
  "panel_simple_get_modes drm_with_edid sc20_panel_ddc connector0 =
     (4, \<lparr>probed_modes = three_modes @ [sc20_ili9881c_mode], width_mm = 59, height_mm = 104,
          edid_property = Some (Edid [0, 255, 255])\<rparr>,
      [DrmGetEdid, DrmModeConnectorUpdateEdidProperty (Some (Edid [0, 255, 255])),
       DrmAddEdidModes (Edid [0, 255, 255]), Kfree,
       DrmModeDuplicate 0, DrmModeSetName, DrmModeProbedAdd sc20_ili9881c_mode])"
  by (simp add: Let_def panel_simple_get_modes_def panel_simple_get_fixed_modes_def drm_with_edid_def
        sc20_panel_ddc_def sc20_panel_def connector0_def edid_adds_def sc20_ili9881c_def
        three_modes_def)

lemma get_modes_no_edid:
  "panel_simple_get_modes drm_no_edid sc20_panel_ddc connector0 =
     (0, \<lparr>probed_modes = [], width_mm = 59, height_mm = 104, edid_property = None\<rparr>,
      [DrmGetEdid, DrmModeConnectorUpdateEdidProperty None, DrmModeDuplicate 0])"
  by (simp add: Let_def panel_simple_get_modes_def panel_simple_get_fixed_modes_def drm_no_edid_def
        sc20_panel_ddc_def sc20_panel_def connector0_def sc20_ili9881c_def)

lemma get_modes_no_ddc:
  "panel_simple_get_modes drm_with_edid sc20_panel connector0 =
     (1, \<lparr>probed_modes = [sc20_ili9881c_mode], width_mm = 59, height_mm = 104,
          edid_property = Some (Edid [1, 2, 3])\<rparr>,
      [DrmModeDuplicate 0, DrmModeSetName, DrmModeProbedAdd sc20_ili9881c_mode])"
  by (simp add: Let_def panel_simple_get_modes_def panel_simple_get_fixed_modes_def drm_with_edid_def
        sc20_panel_def connector0_def sc20_ili9881c_def)

text \<open>
  C6. \<^verbatim>\<open>get_modes\<close> has no failing path: it returns a count. The count is the number
  \<^verbatim>\<open>drm_add_edid_modes\<close> reported (0 without a DDC bus or without a blob) plus the number
  of descriptor modes whose duplication succeeded, a failed duplication being skipped;
  the sum is that of the 32-bit \<^verbatim>\<open>int\<close>, and the plain sum when it is below \<open>2 ^ 31\<close>.
  The probed list grows by exactly the duplicated modes, and the connector's width and
  height are those of the descriptor, whatever the count.
\<close>

theorem get_modes_count:
  assumes "panel_simple_get_modes drm p c = (num, c', t)"
  shows "num = fst (edid_part drm p c)
               + of_nat (length (filter (drm_mode_duplicate_ok drm) [0..<length (desc_modes p)])) \<and>
         probed_modes c' = probed_modes (snd (edid_part drm p c))
               @ duplicated (drm_mode_duplicate_ok drm) 0 (desc_modes p) \<and>
         (unat (fst (edid_part drm p c))
            + length (filter (drm_mode_duplicate_ok drm) [0..<length (desc_modes p)]) < 2 ^ 31 \<longrightarrow>
          sint num = int (unat (fst (edid_part drm p c)))
            + int (length (filter (drm_mode_duplicate_ok drm) [0..<length (desc_modes p)]))) \<and>
         (\<forall>d. desc p = Some d \<longrightarrow> width_mm c' = size_width d \<and> height_mm c' = size_height d)"
proof -
  obtain n2 c2 t2 where f: "panel_simple_get_fixed_modes drm p (snd (edid_part drm p c)) = (n2, c2, t2)"
    by (metis prod_cases3)
  from assms f have eq: "num = fst (edid_part drm p c) + n2" "c' = c2"
    by (simp_all add: get_modes_eq)
  let ?k = "length (filter (drm_mode_duplicate_ok drm) [0..<length (desc_modes p)])"
  let ?e = "fst (edid_part drm p c)"
  from get_fixed_modes_result [OF f] have n2: "n2 = of_nat ?k"
    and pm: "probed_modes c2 = probed_modes (snd (edid_part drm p c))
               @ duplicated (drm_mode_duplicate_ok drm) 0 (desc_modes p)"
    by simp_all
  have size: "width_mm c2 = size_width d \<and> height_mm c2 = size_height d" if "desc p = Some d" for d
    using get_fixed_modes_Some [OF that f] by simp
  have range: "sint (?e + of_nat ?k) = int (unat ?e) + int ?k" if "unat ?e + ?k < 2 ^ 31"
    using that by (rule sint_add_of_nat)
  from n2 pm size range show ?thesis unfolding eq by blast
qed

theorem get_modes_count_witness:
  "panel_simple_get_modes drm_with_edid sc20_panel_ddc connector0 =
     (4, \<lparr>probed_modes = three_modes @ [sc20_ili9881c_mode], width_mm = 59, height_mm = 104,
          edid_property = Some (Edid [0, 255, 255])\<rparr>,
      [DrmGetEdid, DrmModeConnectorUpdateEdidProperty (Some (Edid [0, 255, 255])),
       DrmAddEdidModes (Edid [0, 255, 255]), Kfree,
       DrmModeDuplicate 0, DrmModeSetName, DrmModeProbedAdd sc20_ili9881c_mode]) \<and>
   desc sc20_panel_ddc = Some (dsi_desc sc20_ili9881c) \<and>
   unat (fst (edid_part drm_with_edid sc20_panel_ddc connector0))
     + length (filter (drm_mode_duplicate_ok drm_with_edid) [0..<length (desc_modes sc20_panel_ddc)])
     < 2 ^ 31 \<and>
   sint (4 :: 32 word) = int (unat (fst (edid_part drm_with_edid sc20_panel_ddc connector0)))
     + int (length (filter (drm_mode_duplicate_ok drm_with_edid) [0..<length (desc_modes sc20_panel_ddc)])) \<and>
   (59 :: 32 word) = size_width (dsi_desc sc20_ili9881c)"
proof -
  have d: "desc sc20_panel_ddc = Some (dsi_desc sc20_ili9881c)"
    by (simp add: sc20_panel_ddc_def sc20_panel_def)
  have b: "unat (fst (edid_part drm_with_edid sc20_panel_ddc connector0))
     + length (filter (drm_mode_duplicate_ok drm_with_edid) [0..<length (desc_modes sc20_panel_ddc)])
     < 2 ^ 31"
    by (simp add: edid_part_def drm_with_edid_def sc20_panel_ddc_def sc20_panel_def edid_adds_def
          three_modes_def desc_modes_def sc20_ili9881c_def)
  from get_modes_count [OF get_modes_with_edid] d b get_modes_with_edid
  show ?thesis by simp
qed

text \<open>
  C10. With a DDC bus, \<^verbatim>\<open>get_modes\<close> updates the EDID property exactly once, with
  whatever \<^verbatim>\<open>drm_get_edid\<close> returned: for \<^verbatim>\<open>NULL\<close> the property ends as \<^verbatim>\<open>NULL\<close>,
  and \<^verbatim>\<open>drm_add_edid_modes\<close> is called only for a blob. Without a DDC bus there is no
  update and no \<^verbatim>\<open>drm_add_edid_modes\<close> call, and the property is what it was.
\<close>

theorem edid_property_update:
  assumes "panel_simple_get_modes drm p c = (num, c', t)"
  shows "(ddc p \<noteq> None \<longrightarrow>
            edid_property_updates t = [drm_get_edid_ret drm] \<and>
            edid_mode_adds t = (case drm_get_edid_ret drm of None \<Rightarrow> [] | Some e \<Rightarrow> [e]) \<and>
            (drm_get_edid_ret drm = None \<longrightarrow> edid_property c' = None)) \<and>
         (ddc p = None \<longrightarrow>
            edid_property_updates t = [] \<and> edid_mode_adds t = [] \<and>
            edid_property c' = edid_property c)"
proof -
  obtain n2 c2 t2 where f: "panel_simple_get_fixed_modes drm p (snd (edid_part drm p c)) = (n2, c2, t2)"
    by (metis prod_cases3)
  from assms f have eq: "c' = c2" "t = edid_calls drm p @ t2"
    by (simp_all add: get_modes_eq)
  from get_fixed_modes_result [OF f]
  have t2: "edid_property_updates t2 = []" "edid_mode_adds t2 = []"
    and pr: "edid_property c2 = edid_property (snd (edid_part drm p c))"
    by simp_all
  have u: "edid_property_updates t = (if ddc p = None then [] else [drm_get_edid_ret drm])"
    unfolding eq by (simp add: edid_property_updates_append edid_calls_updates t2)
  have a: "edid_mode_adds t =
     (if ddc p = None then [] else (case drm_get_edid_ret drm of None \<Rightarrow> [] | Some e \<Rightarrow> [e]))"
    unfolding eq by (simp add: edid_mode_adds_append edid_calls_adds t2)
  have n: "edid_property c' = edid_property c" if "ddc p = None"
    unfolding eq pr using that by (simp add: edid_part_def)
  have z: "edid_property c' = None" if "ddc p \<noteq> None" "drm_get_edid_ret drm = None"
    unfolding eq pr using that by (auto simp: edid_part_def)
  from u a n z show ?thesis by simp
qed

theorem edid_property_update_witness:
  "ddc sc20_panel_ddc \<noteq> None \<and> drm_get_edid_ret drm_no_edid = None \<and>
   panel_simple_get_modes drm_no_edid sc20_panel_ddc connector0 =
     (0, \<lparr>probed_modes = [], width_mm = 59, height_mm = 104, edid_property = None\<rparr>,
      [DrmGetEdid, DrmModeConnectorUpdateEdidProperty None, DrmModeDuplicate 0]) \<and>
   edid_property_updates [DrmGetEdid, DrmModeConnectorUpdateEdidProperty None, DrmModeDuplicate 0]
     = [None] \<and>
   ddc sc20_panel = None \<and>
   panel_simple_get_modes drm_with_edid sc20_panel connector0 =
     (1, \<lparr>probed_modes = [sc20_ili9881c_mode], width_mm = 59, height_mm = 104,
          edid_property = Some (Edid [1, 2, 3])\<rparr>,
      [DrmModeDuplicate 0, DrmModeSetName, DrmModeProbedAdd sc20_ili9881c_mode]) \<and>
   edid_property_updates [DrmModeDuplicate 0, DrmModeSetName, DrmModeProbedAdd sc20_ili9881c_mode]
     = []"
proof -
  have h: "ddc sc20_panel_ddc \<noteq> None" "drm_get_edid_ret drm_no_edid = None" "ddc sc20_panel = None"
    by (simp_all add: sc20_panel_ddc_def sc20_panel_def drm_no_edid_def)
  from edid_property_update [OF get_modes_no_edid] edid_property_update [OF get_modes_no_ddc]
    h get_modes_no_edid get_modes_no_ddc
  show ?thesis by simp
qed

subsection \<open>Probing\<close>

lemma dsi_init_run_calls: "snd (dsi_init_run w n steps ret) = map step_call steps"
  by (induction w n steps ret rule: dsi_init_run.induct) (auto split: prod.split)

lemma held_append:
  "held st (a @ b) = (case held st a of None \<Rightarrow> None | Some st' \<Rightarrow> held st' b)"
  by (induction a arbitrary: st) (simp_all split: option.split list.split)

lemma held_script: "held st (map step_call steps) = Some st"
proof (induction steps)
  case Nil
  then show ?case by simp
next
  case (Cons s steps)
  then show ?case by (cases s) simp_all
qed

lemma probe_board_ok:
  "panel_simple_probe gpio_in_range board_ok (Some d) =
     (0, Some (sc20_panel_ddc\<lparr>desc := Some d\<rparr>), ok_probe_calls)"
  by (simp add: panel_simple_probe_def probe_gpio_def probe_backlight_def probe_ddc_def
        probe_register_def board_ok_def gpio_in_range_def OF_GPIO_ACTIVE_LOW_def
        GPIO_ACTIVE_LOW_def sc20_panel_ddc_def sc20_panel_def ok_probe_calls_def Let_def)

lemma of_match_sc20: "of_match_node dsi_of_match ''sc20,ili9881c'' = Some sc20_ili9881c"
  by (simp add: of_match_node_def dsi_of_match_def)

lemma dsi_probe_eq:
  assumes "of_match_node dsi_of_match compatible = Some d"
    and "panel_simple_probe V (probe_res k) (Some (dsi_desc d)) = (err, q, t)"
    and "0 \<le> err"
  shows "panel_simple_dsi_probe V k compatible dsi =
     (mipi_dsi_attach_ret k,
      dsi\<lparr>mode_flags := flags d, dsi_format := Some (format d), dsi_lanes := lanes d\<rparr>, q,
      [OfMatchNode] @ t @ map step_call ili9881c_init @ [MipiDsiAttach])"
proof -
  obtain ret t' where r: "dsi_init_run (mipi_dsi_dcs_write_ret k) 0 ili9881c_init 0 = (ret, t')"
    by (metis prod.exhaust)
  from dsi_init_run_calls [of "mipi_dsi_dcs_write_ret k" 0 ili9881c_init 0] r
  have t': "t' = map step_call ili9881c_init" by simp
  from assms r show ?thesis
    unfolding t' by (simp add: panel_simple_dsi_probe_def Let_def)
qed

lemma dsi_probe_fail_eq:
  assumes "of_match_node dsi_of_match compatible = Some d"
    and "panel_simple_probe V (probe_res k) (Some (dsi_desc d)) = (err, q, t)"
    and "err < 0"
  shows "panel_simple_dsi_probe V k compatible dsi = (err, dsi, q, [OfMatchNode] @ t)"
  using assms by (simp add: panel_simple_dsi_probe_def)

lemma dsi_probe_no_match:
  "of_match_node dsi_of_match compatible = None \<Longrightarrow>
   panel_simple_dsi_probe V k compatible dsi = (- ENODEV, dsi, None, [OfMatchNode])"
  by (simp add: panel_simple_dsi_probe_def)

lemma free_ddc_releases: "held (stack_of V p) (free_ddc V p) = Some []"
  by (simp add: stack_of_def free_ddc_def free_backlight_def free_gpio_def)

lemma free_backlight_releases:
  "ddc p = None \<Longrightarrow> held (stack_of V p) (free_backlight V p) = Some []"
  by (simp add: stack_of_def free_backlight_def free_gpio_def)

lemma free_gpio_releases:
  "ddc p = None \<Longrightarrow> backlight p = None \<Longrightarrow> held (stack_of V p) (free_gpio V p) = Some []"
  by (simp add: stack_of_def free_gpio_def)

lemma free_backlight_ddc [simp]: "free_backlight V (p\<lparr>ddc := x\<rparr>) = free_backlight V p"
  by (simp add: free_backlight_def free_gpio_def)

lemma free_gpio_backlight [simp]: "free_gpio V (p\<lparr>backlight := x\<rparr>) = free_gpio V p"
  by (simp add: free_gpio_def)

lemma probe_register_held:
  assumes "probe_register V k p = (r, q, t)"
  shows "held (stack_of V p) t = (if r < 0 then Some [] else Some (PanelListEntry # stack_of V p))"
proof (cases "drm_panel_add_ret k < 0")
  case True
  with assms have "r < 0" "t = [DrmPanelInit, DrmPanelAdd (drm_panel_add_ret k)] @ free_ddc V p"
    by (auto simp: probe_register_def Let_def)
  with True free_ddc_releases [of V p] show ?thesis by simp
next
  case False
  with assms have "r = 0" "t = [DrmPanelInit, DrmPanelAdd (drm_panel_add_ret k), DevSetDrvdata]"
    by (auto simp: probe_register_def Let_def)
  with False show ?thesis by simp
qed

lemma probe_ddc_held:
  assumes "probe_ddc V k p = (r, q, t)" and "ddc p = None" and "r < 0"
  shows "held (stack_of V p) t = Some []"
proof (cases "ddc_phandle k")
  case False
  obtain r' q' t' where g: "probe_register V k p = (r', q', t')" by (metis prod_cases3)
  with assms False have "r = r'" "t = [OfParsePhandle ''ddc-i2c-bus''] @ t'"
    by (simp_all add: probe_ddc_def)
  with probe_register_held [OF g] assms(3) show ?thesis by simp
next
  case True
  let ?p = "p\<lparr>ddc := of_find_i2c_adapter_ret k\<rparr>"
  let ?t = "[OfParsePhandle ''ddc-i2c-bus'',
             OfFindI2cAdapterByNode (of_find_i2c_adapter_ret k \<noteq> None), OfNodePut]"
  show ?thesis
  proof (cases "of_find_i2c_adapter_ret k")
    case None
    with assms True have t: "t = ?t @ free_backlight V ?p"
      by (simp add: probe_ddc_def Let_def)
    with None free_backlight_releases [of p V] assms(2) show ?thesis by simp
  next
    case (Some bus)
    obtain r' q' t' where g: "probe_register V k ?p = (r', q', t')" by (metis prod_cases3)
    with assms True Some have e: "r = r'" "t = ?t @ t'"
      by (simp_all add: probe_ddc_def Let_def)
    have st: "stack_of V ?p = DdcRef # stack_of V p"
      using Some assms(2) by (simp add: stack_of_def)
    from probe_register_held [OF g] assms(3) Some show ?thesis
      unfolding e st by simp
  qed
qed

lemma probe_backlight_held:
  assumes "probe_backlight V k p = (r, q, t)" and "ddc p = None" and "backlight p = None"
    and "r < 0"
  shows "held (stack_of V p) t = Some []"
proof (cases "backlight_phandle k")
  case False
  obtain r' q' t' where g: "probe_ddc V k p = (r', q', t')" by (metis prod_cases3)
  with assms False have e: "r = r'" "t = [OfParsePhandle ''backlight''] @ t'"
    by (simp_all add: probe_backlight_def)
  from probe_ddc_held [OF g assms(2)] assms(4) show ?thesis unfolding e by simp
next
  case True
  let ?p = "p\<lparr>backlight := of_find_backlight_ret k\<rparr>"
  let ?t = "[OfParsePhandle ''backlight'',
             OfFindBacklightByNode (of_find_backlight_ret k \<noteq> None), OfNodePut]"
  show ?thesis
  proof (cases "of_find_backlight_ret k")
    case None
    with assms True have t: "t = ?t @ free_gpio V ?p"
      by (simp add: probe_backlight_def Let_def)
    with None free_gpio_releases [of p V] assms(2,3) show ?thesis by simp
  next
    case (Some bl)
    obtain r' q' t' where g: "probe_ddc V k ?p = (r', q', t')" by (metis prod_cases3)
    with assms True Some have e: "r = r'" "t = ?t @ t'"
      by (simp_all add: probe_backlight_def Let_def)
    have st: "stack_of V ?p = BacklightRef # stack_of V p" and d: "ddc ?p = None"
      using Some assms(2,3) by (simp_all add: stack_of_def)
    from probe_ddc_held [OF g d] assms(4) Some show ?thesis
      unfolding e st by simp
  qed
qed

lemma probe_gpio_held:
  assumes "probe_gpio V k p0 = (r, q, t)" and "ddc p0 = None" and "backlight p0 = None"
    and "r < 0"
  shows "held [] t = Some []"
proof -
  define p where "p = p0\<lparr>enable_gpio := of_get_named_gpio_ret k\<rparr>"
  define p' where "p' = (if of_gpio_flags k AND OF_GPIO_ACTIVE_LOW \<noteq> 0
               then p\<lparr>enable_gpio_flags := enable_gpio_flags p OR GPIO_ACTIVE_LOW\<rparr> else p)"
  define v :: int where "v = (if enable_gpio_flags p' AND GPIO_ACTIVE_LOW \<noteq> 0 then 1 else 0)"
  define t0 where "t0 = [OfGetNamedGpioFlags, GpioRequest (enable_gpio p') (gpio_request_ret k),
                 GpioDirectionOutput (enable_gpio p') v]"
  have f: "ddc p = None" "backlight p = None" "enable_gpio p = of_get_named_gpio_ret k"
    using assms(2,3) by (simp_all add: p_def)
  have f': "ddc p' = None" "backlight p' = None" "enable_gpio p' = of_get_named_gpio_ret k"
    using f by (simp_all add: p'_def)
  have unf: "probe_gpio V k p0 =
     (if V (enable_gpio p) then
        if gpio_request_ret k < 0 then
          (gpio_request_ret k, None,
           [OfGetNamedGpioFlags, GpioRequest (enable_gpio p') (gpio_request_ret k)])
        else if gpio_direction_output_ret k < 0 then
          (gpio_direction_output_ret k, None, t0 @ free_gpio V p')
        else (case probe_backlight V k p' of (r, q, t') \<Rightarrow> (r, q, t0 @ t'))
      else (case probe_backlight V k p of (r, q, t') \<Rightarrow> (r, q, [OfGetNamedGpioFlags] @ t')))"
    unfolding probe_gpio_def Let_def p_def p'_def v_def t0_def by (rule refl)
  show ?thesis
  proof (cases "V (enable_gpio p)")
    case False
    obtain r' q' t' where g: "probe_backlight V k p = (r', q', t')" by (metis prod_cases3)
    with assms(1) False have e: "r = r'" "t = [OfGetNamedGpioFlags] @ t'"
      unfolding unf by simp_all
    have st: "stack_of V p = []" using False f by (simp add: stack_of_def)
    from probe_backlight_held [OF g f(1) f(2)] assms(4) show ?thesis unfolding e st by simp
  next
    case True
    have st: "stack_of V p' = [GpioLine (of_get_named_gpio_ret k)]"
      using True f f' by (simp add: stack_of_def)
    show ?thesis
    proof (cases "gpio_request_ret k < 0")
      case rq: True
      with assms(1) True
      have "t = [OfGetNamedGpioFlags, GpioRequest (enable_gpio p') (gpio_request_ret k)]"
        unfolding unf by auto
      with rq show ?thesis by simp
    next
      case rq: False
      have h: "held [] t0 = Some (stack_of V p')"
        unfolding st t0_def using rq f'(3) by simp
      show ?thesis
      proof (cases "gpio_direction_output_ret k < 0")
        case dr: True
        with assms(1) True rq have "t = t0 @ free_gpio V p'"
          unfolding unf by auto
        with h free_gpio_releases [OF f'(1) f'(2), of V] show ?thesis
          by (simp only: held_append option.case)
      next
        case dr: False
        obtain r' q' t' where g: "probe_backlight V k p' = (r', q', t')" by (metis prod_cases3)
        with assms(1) True rq dr have e: "r = r'" "t = t0 @ t'"
          unfolding unf by simp_all
        from probe_backlight_held [OF g f'(1) f'(2)] assms(4) h show ?thesis
          unfolding e by (simp only: held_append option.case)
      qed
    qed
  qed
qed

lemma probe_failure_releases:
  assumes "panel_simple_probe V k d = (r, q, t)" and "r < 0"
  shows "held [] t = Some []"
proof (cases "devm_kzalloc_ok k")
  case False
  with assms have "t = [DevmKzalloc]" by (auto simp: panel_simple_probe_def)
  then show ?thesis by simp
next
  case True
  show ?thesis
  proof (cases "devm_regulator_get_ret k")
    case (Inl e)
    with True assms have "t = [DevmKzalloc, DevmRegulatorGet]"
      by (auto simp: panel_simple_probe_def)
    then show ?thesis by simp
  next
    case (Inr reg)
    let ?p = "\<lparr>enabled = False, desc = d, backlight = None, supply_regulator = reg,
               ddc = None, enable_gpio_flags = 0, enable_gpio = 0\<rparr>"
    obtain r' q' t' where g: "probe_gpio V k ?p = (r', q', t')" by (metis prod_cases3)
    with True Inr assms have e: "r = r'" "t = [DevmKzalloc, DevmRegulatorGet] @ t'"
      by (simp_all add: panel_simple_probe_def Let_def)
    have "held [] t' = Some []"
    proof (rule probe_gpio_held [OF g])
      show "ddc ?p = None" "backlight ?p = None" by simp_all
      show "r' < 0" using assms(2) unfolding e .
    qed
    then show ?thesis unfolding e by simp
  qed
qed

lemma probe_defers_for_backlight:
  assumes "devm_kzalloc_ok k" and "devm_regulator_get_ret k = Inr reg"
    and "V (of_get_named_gpio_ret k) \<Longrightarrow> 0 \<le> gpio_request_ret k \<and> 0 \<le> gpio_direction_output_ret k"
    and "backlight_phandle k" and "of_find_backlight_ret k = None"
  shows "fst (panel_simple_probe V k d) = - EPROBE_DEFER"
  using assms
  by (cases "V (of_get_named_gpio_ret k)")
     (simp_all add: panel_simple_probe_def probe_gpio_def probe_backlight_def Let_def
        split: prod.split)

lemma probe_defers_for_ddc:
  assumes "devm_kzalloc_ok k" and "devm_regulator_get_ret k = Inr reg"
    and "V (of_get_named_gpio_ret k) \<Longrightarrow> 0 \<le> gpio_request_ret k \<and> 0 \<le> gpio_direction_output_ret k"
    and "backlight_phandle k \<Longrightarrow> of_find_backlight_ret k \<noteq> None"
    and "ddc_phandle k" and "of_find_i2c_adapter_ret k = None"
  shows "fst (panel_simple_probe V k d) = - EPROBE_DEFER"
  using assms
  by (cases "V (of_get_named_gpio_ret k)"; cases "backlight_phandle k")
     (simp_all add: panel_simple_probe_def probe_gpio_def probe_backlight_def probe_ddc_def
        Let_def split: prod.split)

lemma held_ok_probe_calls:
  "held [] ok_probe_calls = Some [PanelListEntry, DdcRef, BacklightRef, GpioLine 17]"
  by (simp add: ok_probe_calls_def)

lemma probe_res_fields [simp]:
  "probe_res dsi_ok = board_ok" "probe_res dsi_attach_fails = board_ok"
  "mipi_dsi_attach_ret dsi_ok = 0" "mipi_dsi_attach_ret dsi_attach_fails = - 22"
  by (simp_all add: dsi_ok_def dsi_attach_fails_def)

text \<open>
  C8. A write of the init sequence that fails stops nothing: the calls of the sequence
  are the same, in the same order, whatever the writes return, and so is everything
  \<^verbatim>\<open>panel_simple_dsi_probe\<close> returns; when the node matches, \<^verbatim>\<open>panel_simple_probe\<close>
  succeeds and \<^verbatim>\<open>mipi_dsi_attach\<close> returns 0, the probe returns 0 after sending every
  step.
\<close>

theorem dcs_write_errors_ignored:
  "snd (dsi_init_run w n steps ret) = map step_call steps \<and>
   panel_simple_dsi_probe V (k\<lparr>mipi_dsi_dcs_write_ret := w\<rparr>) compatible dsi =
     panel_simple_dsi_probe V k compatible dsi \<and>
   (of_match_node dsi_of_match compatible = Some d \<and>
    panel_simple_probe V (probe_res k) (Some (dsi_desc d)) = (0, q, t) \<and>
    mipi_dsi_attach_ret k = 0 \<longrightarrow>
      panel_simple_dsi_probe V (k\<lparr>mipi_dsi_dcs_write_ret := w\<rparr>) compatible dsi =
        (0, dsi\<lparr>mode_flags := flags d, dsi_format := Some (format d), dsi_lanes := lanes d\<rparr>, q,
         [OfMatchNode] @ t @ map step_call ili9881c_init @ [MipiDsiAttach]))"
proof -
  have ind: "panel_simple_dsi_probe V (k\<lparr>mipi_dsi_dcs_write_ret := w\<rparr>) compatible dsi =
     panel_simple_dsi_probe V k compatible dsi"
  proof (cases "of_match_node dsi_of_match compatible")
    case None
    then show ?thesis by (simp add: dsi_probe_no_match)
  next
    case (Some d')
    obtain err q' t' where p: "panel_simple_probe V (probe_res k) (Some (dsi_desc d')) = (err, q', t')"
      by (metis prod_cases3)
    then have p': "panel_simple_probe V (probe_res (k\<lparr>mipi_dsi_dcs_write_ret := w\<rparr>))
        (Some (dsi_desc d')) = (err, q', t')" by simp
    show ?thesis
    proof (cases "err < 0")
      case True
      with dsi_probe_fail_eq [OF Some p True] dsi_probe_fail_eq [OF Some p' True]
      show ?thesis by simp
    next
      case False
      then have e: "0 \<le> err" by simp
      from dsi_probe_eq [OF Some p e] dsi_probe_eq [OF Some p' e]
      show ?thesis by simp
    qed
  qed
  have ok: "panel_simple_dsi_probe V k compatible dsi =
        (0, dsi\<lparr>mode_flags := flags d, dsi_format := Some (format d), dsi_lanes := lanes d\<rparr>, q,
         [OfMatchNode] @ t @ map step_call ili9881c_init @ [MipiDsiAttach])"
    if "of_match_node dsi_of_match compatible = Some d"
      and "panel_simple_probe V (probe_res k) (Some (dsi_desc d)) = (0, q, t)"
      and "mipi_dsi_attach_ret k = 0"
    using dsi_probe_eq [OF that(1) that(2), of dsi] that(3) by simp
  from ind ok dsi_init_run_calls [of w n steps ret] show ?thesis by simp
qed

theorem dcs_write_errors_ignored_witness:
  "of_match_node dsi_of_match ''sc20,ili9881c'' = Some sc20_ili9881c \<and>
   panel_simple_probe gpio_in_range (probe_res dsi_ok) (Some (dsi_desc sc20_ili9881c)) =
     (0, Some (sc20_panel_ddc\<lparr>desc := Some (dsi_desc sc20_ili9881c)\<rparr>), ok_probe_calls) \<and>
   mipi_dsi_attach_ret dsi_ok = 0 \<and>
   panel_simple_dsi_probe gpio_in_range (dsi_ok\<lparr>mipi_dsi_dcs_write_ret := (\<lambda>n. - 5)\<rparr>)
       ''sc20,ili9881c'' dsi0 =
     (0,
      dsi0\<lparr>mode_flags := flags sc20_ili9881c, dsi_format := Some (format sc20_ili9881c),
           dsi_lanes := lanes sc20_ili9881c\<rparr>,
      Some (sc20_panel_ddc\<lparr>desc := Some (dsi_desc sc20_ili9881c)\<rparr>),
      [OfMatchNode] @ ok_probe_calls @ map step_call ili9881c_init @ [MipiDsiAttach])"
proof -
  have p: "panel_simple_probe gpio_in_range (probe_res dsi_ok) (Some (dsi_desc sc20_ili9881c)) =
     (0, Some (sc20_panel_ddc\<lparr>desc := Some (dsi_desc sc20_ili9881c)\<rparr>), ok_probe_calls)"
    by (simp add: probe_board_ok)
  have a: "mipi_dsi_attach_ret dsi_ok = 0" by simp
  from dcs_write_errors_ignored
         [of "\<lambda>n. - 5" 0 "[]" 0 gpio_in_range dsi_ok "''sc20,ili9881c''" dsi0 sc20_ili9881c
             "Some (sc20_panel_ddc\<lparr>desc := Some (dsi_desc sc20_ili9881c)\<rparr>)" ok_probe_calls]
    of_match_sc20 p a
  show ?thesis by blast
qed

text \<open>
  C1 as stated fails. On the board where everything succeeds, all the DCS writes of the
  init sequence are made by \<^verbatim>\<open>panel_simple_dsi_probe\<close>, before \<^verbatim>\<open>mipi_dsi_attach\<close>
  and with the regulator never enabled; the \<^verbatim>\<open>enable\<close> of the panel it leaves returns 0
  after exactly three calls, none of them a DCS write, so no write of the init sequence
  lies between the GPIO and the backlight.
\<close>

theorem enable_sends_no_dcs_write:
  "panel_simple_dsi_probe gpio_in_range dsi_ok ''sc20,ili9881c'' dsi0 =
     (0,
      dsi0\<lparr>mode_flags := flags sc20_ili9881c, dsi_format := Some (format sc20_ili9881c),
           dsi_lanes := lanes sc20_ili9881c\<rparr>,
      Some sc20_panel_ddc,
      [OfMatchNode] @ ok_probe_calls @ map step_call ili9881c_init @ [MipiDsiAttach]) \<and>
   panel_simple_enable gpio_in_range hw_ok sc20_panel_ddc =
     (0, sc20_panel_ddc\<lparr>backlight := Some \<lparr>props_power = FB_BLANK_UNBLANK\<rparr>, enabled := True\<rparr>,
      [RegulatorEnable, GpioSetValue 17 1, BacklightUpdateStatus FB_BLANK_UNBLANK]) \<and>
   \<not> list_ex is_dcs_write
       [RegulatorEnable, GpioSetValue 17 1, BacklightUpdateStatus FB_BLANK_UNBLANK]"
proof -
  have d: "sc20_panel_ddc\<lparr>desc := Some (dsi_desc sc20_ili9881c)\<rparr> = sc20_panel_ddc"
    by (simp add: sc20_panel_ddc_def sc20_panel_def)
  have p: "panel_simple_probe gpio_in_range (probe_res dsi_ok) (Some (dsi_desc sc20_ili9881c)) =
     (0, Some sc20_panel_ddc, ok_probe_calls)"
    by (simp add: probe_board_ok d)
  have e: "panel_simple_enable gpio_in_range hw_ok sc20_panel_ddc =
     (0, sc20_panel_ddc\<lparr>backlight := Some \<lparr>props_power = FB_BLANK_UNBLANK\<rparr>, enabled := True\<rparr>,
      [RegulatorEnable, GpioSetValue 17 1, BacklightUpdateStatus FB_BLANK_UNBLANK])"
    by (simp add: sc20_panel_ddc_def enable_succeeds with_power_def gpio_calls_def
          backlight_calls_def)
  from dsi_probe_eq [OF of_match_sc20 p, of dsi0] e show ?thesis by simp
qed

text \<open>
  C7 does not hold for the last step of the attach. On the board where everything
  succeeds but \<^verbatim>\<open>mipi_dsi_attach\<close>, \<^verbatim>\<open>panel_simple_dsi_probe\<close> returns the error of
  \<^verbatim>\<open>mipi_dsi_attach\<close> and makes no releasing call: the GPIO line, the backlight and DDC
  references and the entry in the panel list are still held. (Every failure inside
  \<^verbatim>\<open>panel_simple_probe\<close> releases what was taken, latest first:
  \<open>probe_failure_releases\<close>; a missing backlight or DDC device gives
  \<^verbatim>\<open>-EPROBE_DEFER\<close>: \<open>probe_defers_for_backlight\<close>, \<open>probe_defers_for_ddc\<close>.)
\<close>

theorem attach_failure_keeps_resources:
  "panel_simple_dsi_probe gpio_in_range dsi_attach_fails ''sc20,ili9881c'' dsi0 =
     (- 22,
      dsi0\<lparr>mode_flags := flags sc20_ili9881c, dsi_format := Some (format sc20_ili9881c),
           dsi_lanes := lanes sc20_ili9881c\<rparr>,
      Some (sc20_panel_ddc\<lparr>desc := Some (dsi_desc sc20_ili9881c)\<rparr>),
      [OfMatchNode] @ ok_probe_calls @ map step_call ili9881c_init @ [MipiDsiAttach]) \<and>
   held [] ([OfMatchNode] @ ok_probe_calls @ map step_call ili9881c_init @ [MipiDsiAttach]) =
     Some [PanelListEntry, DdcRef, BacklightRef, GpioLine 17]"
proof -
  have p: "panel_simple_probe gpio_in_range (probe_res dsi_attach_fails)
       (Some (dsi_desc sc20_ili9881c)) =
     (0, Some (sc20_panel_ddc\<lparr>desc := Some (dsi_desc sc20_ili9881c)\<rparr>), ok_probe_calls)"
    by (simp add: probe_board_ok)
  have h: "held [] ([OfMatchNode] @ ok_probe_calls @ map step_call ili9881c_init @ [MipiDsiAttach]) =
     Some [PanelListEntry, DdcRef, BacklightRef, GpioLine 17]"
    by (simp add: held_append held_ok_probe_calls held_script)
  from dsi_probe_eq [OF of_match_sc20 p, of dsi0] h show ?thesis by simp
qed

end
